theory Spec2Isabelle
  imports Complex_Main "HOL-Library.Word" "HOL-Library.Signed_Division"
begin

unbundle bit_operations_syntax

text \<open>
  WalB is a block device that writes to a log device first and to a data device afterwards.
  This theory embeds the layout functions of the log device (include/walb\_log\_device.h) and
  the control operations of a walb device (module/none\_req.c): the oldest lsid, snapshots,
  resize, clearing the log, freeze and melt, and the redo at start.  The operations are
  functions on the state of the device; what the devices and the other parts of the driver
  answer is an argument; a result \<open>None\<close> is a run that traps.  The properties proved are the
  claims C1 to C10 about these operations.
\<close>

section \<open>Machine integers\<close>

text \<open>
  The C types of the sources: \<open>u8\<close>, \<open>u32\<close> and \<open>u64\<close> are unsigned words, \<open>int\<close> is a
  32-bit word read in two's complement (\<open>sint\<close>), \<open>size_t\<close> and \<open>unsigned long\<close> are 64 bits
  wide (LP64, the kernel the module is built for).  Arithmetic on words wraps around.
\<close>

type_synonym u8 = "8 word"
type_synonym u32 = "32 word"
type_synonym u64 = "64 word"
type_synonym s32 = "32 word"

text \<open>C division of two \<open>int\<close>s truncates towards zero; the quotient is stored in an \<open>int\<close>.\<close>

definition int_div :: "s32 \<Rightarrow> s32 \<Rightarrow> s32" where
  "int_div a b = word_of_int (sint a sdiv sint b)"

section \<open>include/walb\_log\_device.h: layout of the log device\<close>

text \<open>
  \<open>struct walb_super_sector\<close>.  The fields are those of the header together with
  \<open>log_checksum_salt\<close>, which the module reads and writes through the same structure.
\<close>

record walb_super_sector =
  checksum :: u32
  sector_size :: u32
  snapshot_metadata_size :: u32
  uuid :: "u8 list"
  ring_buffer_size :: u64
  oldest_lsid :: u64
  written_lsid :: u64
  device_size :: u64
  log_checksum_salt :: u32

text \<open>
  \<open>sizeof(walb_snapshot_sector_t)\<close> is 8 (checksum and bitmap, packed) and
  \<open>sizeof(walb_snapshot_record_t)\<close> is 80 (lsid, timestamp, name[64], packed).
\<close>

definition sizeof_walb_snapshot_sector_t :: u64 where
  "sizeof_walb_snapshot_sector_t = 8"

definition sizeof_walb_snapshot_record_t :: u64 where
  "sizeof_walb_snapshot_record_t = 80"

text \<open>
  \<open>max_n_snapshots_in_sector\<close>: the \<open>int\<close> argument is converted to \<open>size_t\<close> (sign
  extension), subtraction and division are unsigned 64-bit operations, and the quotient is
  truncated into the \<open>int\<close> variable \<open>size\<close>.
\<close>

definition max_n_snapshots_in_sector :: "s32 \<Rightarrow> s32" where
  "max_n_snapshots_in_sector sector_sz =
     (let size = (ucast (((scast sector_sz :: u64) - sizeof_walb_snapshot_sector_t)
                          div sizeof_walb_snapshot_record_t) :: s32)
      in if size <s 32 then size else 32)"

text \<open>
  \<open>get_metadata_size\<close>.  The division traps when \<open>max_n_snapshots_in_sector\<close> is 0; the
  result is then \<open>None\<close>.  The \<open>ASSERT\<close> of the source is a debugging aid and states a
  precondition, \<open>assert_get_metadata_size\<close>; it does not change the value computed.
\<close>

definition assert_get_metadata_size :: "u64 \<Rightarrow> s32 \<Rightarrow> bool" where
  "assert_get_metadata_size page_size sector_sz \<longleftrightarrow>
     scast sector_sz \<noteq> (0 :: u64) \<and> page_size mod scast sector_sz = 0 \<and>
     page_size \<ge> scast sector_sz"

definition get_metadata_size :: "s32 \<Rightarrow> s32 \<Rightarrow> s32 option" where
  "get_metadata_size sector_sz n_snapshots =
     (let t = max_n_snapshots_in_sector sector_sz
      in if t = 0 then None else Some (int_div (n_snapshots + t - 1) t))"

text \<open>
  The offsets, in sectors.  \<open>PAGE_SIZE\<close> is a constant of the kernel, an \<open>unsigned long\<close>;
  it is the first argument here.  \<open>PAGE_SIZE / sector_size\<close> traps when the sector size is 0.
\<close>

definition get_super_sector0_offset :: "u64 \<Rightarrow> s32 \<Rightarrow> u64 option" where
  "get_super_sector0_offset page_size sector_sz =
     (if (scast sector_sz :: u64) = 0 then None
      else Some (page_size div scast sector_sz))"

definition get_metadata_offset :: "u64 \<Rightarrow> s32 \<Rightarrow> u64 option" where
  "get_metadata_offset page_size sector_sz =
     map_option (\<lambda>off. off + 1) (get_super_sector0_offset page_size sector_sz)"

definition get_super_sector1_offset :: "u64 \<Rightarrow> s32 \<Rightarrow> s32 \<Rightarrow> u64 option" where
  "get_super_sector1_offset page_size sector_sz n_snapshots =
     (case get_metadata_offset page_size sector_sz of
        None \<Rightarrow> None
      | Some off \<Rightarrow>
          (case get_metadata_size sector_sz n_snapshots of
             None \<Rightarrow> None
           | Some n \<Rightarrow> Some (off + scast n)))"

definition get_ring_buffer_offset :: "u64 \<Rightarrow> s32 \<Rightarrow> s32 \<Rightarrow> u64 option" where
  "get_ring_buffer_offset page_size sector_sz n_snapshots =
     map_option (\<lambda>off. off + 1) (get_super_sector1_offset page_size sector_sz n_snapshots)"

text \<open>
  The second family reads the sector size and the metadata size from a super sector.  The
  \<open>u32\<close> sector size is passed for an \<open>int\<close> parameter (the same 32 bits); the \<open>u32\<close>
  metadata size is zero-extended to 64 bits in the sum.
\<close>

definition get_super_sector0_offset_2 :: "u64 \<Rightarrow> 'a walb_super_sector_scheme \<Rightarrow> u64 option"
  where
  "get_super_sector0_offset_2 page_size super_sect =
     get_super_sector0_offset page_size (sector_size super_sect)"

definition get_metadata_offset_2 :: "u64 \<Rightarrow> 'a walb_super_sector_scheme \<Rightarrow> u64 option" where
  "get_metadata_offset_2 page_size super_sect =
     get_metadata_offset page_size (sector_size super_sect)"

definition get_super_sector1_offset_2 :: "u64 \<Rightarrow> 'a walb_super_sector_scheme \<Rightarrow> u64 option"
  where
  "get_super_sector1_offset_2 page_size super_sect =
     map_option (\<lambda>off. off + ucast (snapshot_metadata_size super_sect))
       (get_metadata_offset page_size (sector_size super_sect))"

definition get_ring_buffer_offset_2 :: "u64 \<Rightarrow> 'a walb_super_sector_scheme \<Rightarrow> u64 option" where
  "get_ring_buffer_offset_2 page_size super_sect =
     map_option (\<lambda>off. off + 1) (get_super_sector1_offset_2 page_size super_sect)"


section \<open>module/none\_req.c: data of a walb device\<close>

text \<open>
  The file module/none\_req.c holds the code of the module that its own header names
  walb.c; the names below are those of that code.
\<close>

type_synonym sector = "u8 list"

definition EFAULT :: int where
  "EFAULT = 14"

text \<open>
  Modelled from the spec: \<open>INVALID_LSID\<close>, declared in a header that is not among the
  sources, is \<open>2^64 - 1\<close> (section 3 of the specification).
\<close>

definition INVALID_LSID :: u64 where
  "INVALID_LSID = - 1"

text \<open>The anonymous \<open>enum\<close> of freeze states.\<close>

datatype freeze_state_t = FRZ_MELTED | FRZ_FREEZED | FRZ_FREEZED_WITH_TIMEOUT

text \<open>
  \<open>struct lsid_set\<close>.  The field \<open>completed\<close> exists only under \<open>WALB_FAST_ALGORITHM\<close>;
  without it the field is never read or written here.
\<close>

record lsid_set =
  latest :: u64
  flush :: u64
  completed :: u64
  permanent :: u64
  written :: u64
  prev_written :: u64
  oldest :: u64

text \<open>
  \<open>struct walb_snapshot_record\<close> as the module uses it, and the error kinds that the
  specification lists in section 7.
\<close>

record walb_snapshot_record =
  lsid :: u64
  timestamp :: u64
  name :: string
  snapshot_id :: u32

text \<open>
  Modelled from the spec: \<open>sizeof(struct walb_snapshot_record)\<close>.  The module's structure
  has the member \<open>snapshot_id\<close>, which the structure of include/walb\_log\_device.h lacks;
  its declaration is missing.  Section 3 of the specification gives the record as a \<open>u32\<close>
  snapshot id, a name of 64 bytes, a \<open>u64\<close> lsid and a \<open>u64\<close> timestamp, packed: 84 bytes.
\<close>

definition sizeof_struct_walb_snapshot_record :: u64 where
  "sizeof_struct_walb_snapshot_record = 84"

datatype error_kind =
  IoError | ChecksumError | InvalidLsid | LogOverflow | ReadOnly | NameConflict | NotFound
  | Busy | InvalidArgument

text \<open>
  Modelled from the spec: the snapshot store (snapshot.c is not among the sources).  Section
  4.9: records keyed by a snapshot id that is assigned monotonically, unique names, a bounded
  number of record slots in the metadata sectors.
\<close>

record snapshot_data =
  records :: "walb_snapshot_record list"
  next_snapshot_id :: u32
  max_n_records :: nat

text \<open>
  Modelled from the spec: a log pack header and its records (section 3); the layout is
  declared in walb\_log\_record.h, which is not among the sources.
\<close>

record walb_log_record =
  is_exist :: bool
  is_padding :: bool
  is_discard :: bool
  offset :: u64
  io_size :: u32
  lsid_local :: u32
  checksum :: u32

record walb_logpack_header =
  logpack_lsid :: u64
  total_io_size :: u32
  n_records :: u32
  recs :: "walb_log_record list"

text \<open>
  \<open>struct walb_ctl\<close>: the fields that the operations below read and write.  The buffer
  \<open>u2k.__buf\<close> is a snapshot record or \<open>NULL\<close>.
\<close>

record walb_ctl =
  val_u64 :: u64
  val_u32 :: u32
  val_int :: s32
  error :: "error_kind option"
  u2k_buf_size :: u64
  u2k_buf :: "walb_snapshot_record option"

text \<open>
  Constants, macros and helpers that walb.c uses and that other files of the repository
  declare: they are parameters of the model.  \<open>WALB_FAST_ALGORITHM\<close> is the compile-time
  switch; \<open>get_logpack_header\<close> decodes a sector, \<open>set_logpack_header\<close> encodes a header and
  sets its salted checksum, \<open>checksum_payload\<close> is the salted checksum of payload sectors.
\<close>

record config =
  WALB_FAST_ALGORITHM :: bool
  PAGE_SIZE :: u64
  MAX_LSID :: u64
  INVALID_SNAPSHOT_ID :: u32
  addr_pb :: "u32 \<Rightarrow> u64 \<Rightarrow> u64"
  get_logpack_header :: "sector \<Rightarrow> walb_logpack_header"
  is_valid_logpack_header_with_checksum :: "sector \<Rightarrow> u32 \<Rightarrow> u32 \<Rightarrow> bool"
  set_logpack_header :: "walb_logpack_header \<Rightarrow> u32 \<Rightarrow> u32 \<Rightarrow> sector"
  checksum_payload :: "sector list \<Rightarrow> u32 \<Rightarrow> u32"
  is_valid_snapshot_name :: "string \<Rightarrow> bool"

text \<open>
  What the collaborators answer during one request: whether a sector can be allocated,
  whether the devices accept reads and writes, whether the super sectors can be written,
  whether \<open>bdget_disk\<close> finds the block device, what \<open>alldevs_update_uuid\<close> returns,
  whether the snapshot sectors can be written, and the bytes of \<open>get_random_bytes\<close>.
\<close>

record env =
  sector_alloc_ok :: bool
  ldev_read_ok :: bool
  ldev_write_ok :: bool
  ddev_write_ok :: bool
  write_super_ok :: bool
  bdget_disk_ok :: bool
  alldevs_update_uuid_ret :: int
  snapshot_io_ok :: bool
  random_uuid :: "u8 list"
  random_salt :: u32

text \<open>
  Calls into the write pipeline (io.c) and the checkpoint loop (checkpoint.c) that pause and
  resume them.  Neither file is among the sources, so the model records these calls in the
  order in which walb.c makes them.
\<close>

datatype call = IOCORE_FREEZE | IOCORE_MELT | STOP_CHECKPOINTING | START_CHECKPOINTING

text \<open>
  \<open>struct walb_dev\<close>: the fields that the control operations use, followed by the state of
  the collaborators: the capacities of the two gendisks, the sizes and the contents of the
  backing devices, the super sector last written to the log device, the uuid under which
  the device is registered, the overflow flag of the pipeline, the pending delayed melt work
  (with its delay in milliseconds) and the recorded calls.
\<close>

record walb_dev =
  lsids :: lsid_set
  ring_buffer_size :: u64
  ring_buffer_off :: u64
  ldev_size :: u64
  ddev_size :: u64
  size_wdev :: u64
  physical_bs :: u32
  n_snapshots :: s32
  log_checksum_salt :: u32
  lsuper0 :: walb_super_sector
  is_read_only :: bool
  freeze_state :: freeze_state_t
  freeze_dwork :: "u32 option"
  snapd :: snapshot_data
  gd_capacity :: u64
  log_gd_capacity :: u64
  ldev_nr_sects :: u64
  ddev_nr_sects :: u64
  ldev :: "u64 \<Rightarrow> sector"
  ddev :: "u64 \<Rightarrow> sector"
  ldev_super :: "walb_super_sector option"
  alldevs_uuid :: "u8 list"
  log_overflow :: bool
  calls :: "call list"

section \<open>Collaborators\<close>

definition iocore_freeze :: "walb_dev \<Rightarrow> walb_dev" where
  "iocore_freeze wdev = wdev\<lparr>calls := calls wdev @ [IOCORE_FREEZE]\<rparr>"

definition iocore_melt :: "walb_dev \<Rightarrow> walb_dev" where
  "iocore_melt wdev = wdev\<lparr>calls := calls wdev @ [IOCORE_MELT]\<rparr>"

definition stop_checkpointing :: "walb_dev \<Rightarrow> walb_dev" where
  "stop_checkpointing wdev = wdev\<lparr>calls := calls wdev @ [STOP_CHECKPOINTING]\<rparr>"

definition start_checkpointing :: "walb_dev \<Rightarrow> walb_dev" where
  "start_checkpointing wdev = wdev\<lparr>calls := calls wdev @ [START_CHECKPOINTING]\<rparr>"

text \<open>
  Modelled from the spec: \<open>iocore_set_readonly\<close> sets the read-only latch (sections 4.5 and
  5), \<open>iocore_clear_log_overflow\<close> clears the sticky overflow flag and
  \<open>iocore_is_log_overflow\<close> reads it (section 4.5); io.c is not among the sources.
\<close>

definition iocore_set_readonly :: "walb_dev \<Rightarrow> walb_dev" where
  "iocore_set_readonly wdev = wdev\<lparr>is_read_only := True\<rparr>"

definition iocore_clear_log_overflow :: "walb_dev \<Rightarrow> walb_dev" where
  "iocore_clear_log_overflow wdev = wdev\<lparr>log_overflow := False\<rparr>"

definition iocore_is_log_overflow :: "walb_dev \<Rightarrow> bool" where
  "iocore_is_log_overflow wdev = log_overflow wdev"

text \<open>
  Modelled from the spec: \<open>get_offset_of_lsid_2\<close> (declared in a header that is not among
  the sources) is \<open>ring_start + (lsid mod ring_size)\<close> (sections 3 and 4.5), the ring start
  being \<open>get_ring_buffer_offset_2\<close>.  The remainder traps when the ring size is 0.
\<close>

definition get_offset_of_lsid_2 :: "u64 \<Rightarrow> walb_super_sector \<Rightarrow> u64 \<Rightarrow> u64 option" where
  "get_offset_of_lsid_2 page_size super l =
     (case get_ring_buffer_offset_2 page_size super of
        None \<Rightarrow> None
      | Some off \<Rightarrow>
          if walb_super_sector.ring_buffer_size super = 0 then None
          else Some (off + l mod walb_super_sector.ring_buffer_size super))"

text \<open>
  Modelled from the spec: \<open>walb_sync_super_block\<close> (super.c is not among the sources) copies
  the current \<open>oldest\<close> and \<open>written\<close> LSIDs and the device size into the super image and
  writes the image to both super sectors (sections 3, 4.2 and 4.8).  It returns false when
  the write fails; the sectors on the device are then taken as unchanged.
\<close>

definition walb_sync_super_block :: "env \<Rightarrow> walb_dev \<Rightarrow> bool \<times> walb_dev" where
  "walb_sync_super_block e wdev =
     (let img = (lsuper0 wdev)\<lparr>oldest_lsid := oldest (lsids wdev),
                                written_lsid := written (lsids wdev),
                                device_size := size_wdev wdev\<rparr>;
          wdev1 = wdev\<lparr>lsuper0 := img\<rparr>
      in if write_super_ok e then (True, wdev1\<lparr>ldev_super := Some img\<rparr>)
         else (False, wdev1))"

text \<open>
  Modelled from the spec: the operations of the snapshot store that walb.c calls (section
  4.9).  \<open>snapshot_add\<close> fails if the name exists, the lsid is invalid or all slots are in
  use; it assigns the next snapshot id, skipping \<open>INVALID_SNAPSHOT_ID\<close>.
  \<open>snapshot_del_range\<close> removes the records with \<open>lsid0 \<le> lsid < lsid1\<close> and returns their
  number, or a negative value when the sectors cannot be written.
\<close>

definition snapshot_n_records :: "snapshot_data \<Rightarrow> nat" where
  "snapshot_n_records sd = length (records sd)"

definition snapshot_next_id :: "config \<Rightarrow> u32 \<Rightarrow> u32" where
  "snapshot_next_id cfg sid =
     (if sid + 1 = INVALID_SNAPSHOT_ID cfg then sid + 2 else sid + 1)"

definition snapshot_add ::
  "config \<Rightarrow> env \<Rightarrow> snapshot_data \<Rightarrow> string \<Rightarrow> u64 \<Rightarrow> u64 \<Rightarrow> error_kind option \<times> snapshot_data"
  where
  "snapshot_add cfg e sd nm l ts =
     (if nm \<in> set (map name (records sd)) then (Some NameConflict, sd)
      else if l = INVALID_LSID then (Some InvalidLsid, sd)
      else if max_n_records sd \<le> length (records sd) then (Some Busy, sd)
      else if \<not> snapshot_io_ok e then (Some IoError, sd)
      else (None,
            sd\<lparr>records := records sd @
                    [\<lparr>lsid = l, timestamp = ts, name = nm,
                      snapshot_id = next_snapshot_id sd\<rparr>],
                next_snapshot_id := snapshot_next_id cfg (next_snapshot_id sd)\<rparr>))"

definition snapshot_del_range :: "env \<Rightarrow> snapshot_data \<Rightarrow> u64 \<Rightarrow> u64 \<Rightarrow> int \<times> snapshot_data"
  where
  "snapshot_del_range e sd lsid0 lsid1 =
     (if \<not> snapshot_io_ok e then (- 1, sd)
      else (int (length (filter (\<lambda>r. lsid0 \<le> lsid r \<and> lsid r < lsid1) (records sd))),
            sd\<lparr>records := filter (\<lambda>r. \<not> (lsid0 \<le> lsid r \<and> lsid r < lsid1)) (records sd)\<rparr>))"

section \<open>module/none\_req.c: utility functions\<close>

definition get_written_lsid :: "walb_dev \<Rightarrow> u64" where
  "get_written_lsid wdev = written (lsids wdev)"

definition get_permanent_lsid :: "walb_dev \<Rightarrow> u64" where
  "get_permanent_lsid wdev = permanent (lsids wdev)"

definition get_completed_lsid :: "config \<Rightarrow> walb_dev \<Rightarrow> u64" where
  "get_completed_lsid cfg wdev =
     (if WALB_FAST_ALGORITHM cfg then completed (lsids wdev) else get_written_lsid wdev)"

definition get_log_usage :: "walb_dev \<Rightarrow> u64" where
  "get_log_usage wdev = latest (lsids wdev) - oldest (lsids wdev)"

definition get_log_capacity :: "walb_dev \<Rightarrow> u64" where
  "get_log_capacity wdev = ring_buffer_size wdev"

text \<open>
  \<open>walb_check_lsid_valid\<close>: 1 if the sector at the offset of the lsid holds a valid log pack
  header with that lsid, 0 otherwise, also when the sector cannot be allocated or read.
  \<open>None\<close> stands for a trap in the offset computation.
\<close>

definition walb_check_lsid_valid :: "config \<Rightarrow> env \<Rightarrow> walb_dev \<Rightarrow> u64 \<Rightarrow> int option" where
  "walb_check_lsid_valid cfg e wdev l =
     (if \<not> sector_alloc_ok e then Some 0
      else case get_offset_of_lsid_2 (PAGE_SIZE cfg) (lsuper0 wdev) l of
             None \<Rightarrow> None
           | Some off \<Rightarrow>
               if \<not> ldev_read_ok e then Some 0
               else let sect = ldev wdev off;
                        logh = get_logpack_header cfg sect
                    in if \<not> is_valid_logpack_header_with_checksum cfg sect
                              (physical_bs wdev) (log_checksum_salt wdev)
                       then Some 0
                       else if logpack_lsid logh \<noteq> l then Some 0
                       else Some 1)"

text \<open>
  \<open>resize_disk\<close>, on the capacity of the gendisk: the capacity is set before \<open>bdget_disk\<close>
  is tried.
\<close>

definition resize_disk :: "env \<Rightarrow> u64 \<Rightarrow> u64 \<Rightarrow> bool \<times> u64" where
  "resize_disk e capacity new_size =
     (if capacity = new_size then (True, capacity)
      else if \<not> bdget_disk_ok e then (False, new_size)
      else (True, new_size))"

definition invalidate_lsid :: "config \<Rightarrow> env \<Rightarrow> walb_dev \<Rightarrow> u64 \<Rightarrow> (bool \<times> walb_dev) option"
  where
  "invalidate_lsid cfg e wdev l =
     (if \<not> sector_alloc_ok e then Some (False, wdev)
      else case get_offset_of_lsid_2 (PAGE_SIZE cfg) (lsuper0 wdev) l of
             None \<Rightarrow> None
           | Some off \<Rightarrow>
               if ldev_write_ok e
               then Some (True,
                          wdev\<lparr>ldev := (ldev wdev)(off := replicate (unat (physical_bs wdev)) 0)\<rparr>)
               else Some (False, iocore_set_readonly wdev))"

definition backup_lsid_set :: "walb_dev \<Rightarrow> lsid_set" where
  "backup_lsid_set wdev = lsids wdev"

definition restore_lsid_set :: "walb_dev \<Rightarrow> lsid_set \<Rightarrow> walb_dev" where
  "restore_lsid_set wdev ls = wdev\<lparr>lsids := ls\<rparr>"

text \<open>\<open>task_melt\<close> is the delayed work; when it runs it is no longer pending.\<close>

definition task_melt :: "walb_dev \<Rightarrow> walb_dev" where
  "task_melt wdev =
     (case freeze_state wdev of
        FRZ_MELTED \<Rightarrow> wdev\<lparr>freeze_dwork := None\<rparr>
      | FRZ_FREEZED \<Rightarrow> wdev\<lparr>freeze_dwork := None\<rparr>
      | FRZ_FREEZED_WITH_TIMEOUT \<Rightarrow>
          (iocore_melt (start_checkpointing (wdev\<lparr>freeze_dwork := None\<rparr>)))
            \<lparr>freeze_state := FRZ_MELTED\<rparr>)"

definition cancel_melt_work :: "walb_dev \<Rightarrow> walb_dev" where
  "cancel_melt_work wdev =
     (if freeze_state wdev = FRZ_FREEZED_WITH_TIMEOUT
      then wdev\<lparr>freeze_state := FRZ_FREEZED, freeze_dwork := None\<rparr>
      else wdev)"

text \<open>
  \<open>freeze_if_melted\<close>.  The delay of the queued work is \<open>timeout_sec * 1000\<close> milliseconds,
  a product of \<open>unsigned int\<close>s.
\<close>

definition freeze_if_melted :: "walb_dev \<Rightarrow> u32 \<Rightarrow> bool \<times> walb_dev" where
  "freeze_if_melted wdev timeout_sec =
     (case freeze_state wdev of
        FRZ_FREEZED_WITH_TIMEOUT \<Rightarrow> (False, wdev)
      | st \<Rightarrow>
          let wdev1 = (case st of
                         FRZ_MELTED \<Rightarrow>
                           (stop_checkpointing (iocore_freeze wdev))\<lparr>freeze_state := FRZ_FREEZED\<rparr>
                       | _ \<Rightarrow> wdev)
          in if timeout_sec > 0
             then (True, wdev1\<lparr>freeze_dwork := Some (timeout_sec * 1000),
                               freeze_state := FRZ_FREEZED_WITH_TIMEOUT\<rparr>)
             else (True, wdev1))"

definition melt_if_frozen :: "walb_dev \<Rightarrow> bool \<Rightarrow> bool \<times> walb_dev" where
  "melt_if_frozen wdev restarts_checkpointing =
     (let wdev1 = cancel_melt_work wdev
      in case freeze_state wdev1 of
           FRZ_MELTED \<Rightarrow> (True, wdev1)
         | FRZ_FREEZED \<Rightarrow>
             (True,
              (iocore_melt (if restarts_checkpointing then start_checkpointing wdev1 else wdev1))
                \<lparr>freeze_state := FRZ_MELTED\<rparr>)
         | FRZ_FREEZED_WITH_TIMEOUT \<Rightarrow> (False, wdev1))"

section \<open>module/none\_req.c: the control operations\<close>

text \<open>
  Each operation takes the control data and the device and returns the code (0 or
  \<open>-EFAULT\<close>), the control data and the device.  Operations that compute an offset in the
  ring buffer return \<open>None\<close> when that computation traps.
\<close>

definition ioctl_wdev_get_oldest_lsid :: "walb_ctl \<Rightarrow> walb_dev \<Rightarrow> int \<times> walb_ctl \<times> walb_dev"
  where
  "ioctl_wdev_get_oldest_lsid ctl wdev = (0, ctl\<lparr>val_u64 := oldest (lsids wdev)\<rparr>, wdev)"

definition ioctl_wdev_set_oldest_lsid ::
  "config \<Rightarrow> env \<Rightarrow> walb_ctl \<Rightarrow> walb_dev \<Rightarrow> (int \<times> walb_ctl \<times> walb_dev) option" where
  "ioctl_wdev_set_oldest_lsid cfg e ctl wdev =
     (let l = val_u64 ctl;
          written_l = written (lsids wdev);
          oldest_l = oldest (lsids wdev);
          valid = (if l = written_l then Some True
                   else if oldest_l \<le> l \<and> l < written_l
                   then map_option (\<lambda>r. r \<noteq> 0) (walb_check_lsid_valid cfg e wdev l)
                   else Some False)
      in case valid of
           None \<Rightarrow> None
         | Some False \<Rightarrow> Some (- EFAULT, ctl, wdev)
         | Some True \<Rightarrow>
             (let wdev1 = wdev\<lparr>lsids := (lsids wdev)\<lparr>oldest := l\<rparr>\<rparr>;
                  (ok, wdev2) = walb_sync_super_block e wdev1
              in if \<not> ok then Some (- EFAULT, ctl, wdev2) else Some (0, ctl, wdev2)))"

text \<open>
  \<open>ioctl_wdev_create_snapshot\<close>.  The assignment to \<open>srec->lsid\<close> changes the record in the
  buffer of the control data.  A buffer smaller than the module's snapshot record is
  refused before the record is looked at.  The \<open>ASSERT\<close> after the assignment (the lsid
  is not \<open>INVALID_LSID\<close>) is a debugging aid; with a completed lsid of \<open>INVALID_LSID\<close>
  the snapshot store refuses the record.
\<close>

definition ioctl_wdev_create_snapshot ::
  "config \<Rightarrow> env \<Rightarrow> walb_ctl \<Rightarrow> walb_dev \<Rightarrow> int \<times> walb_ctl \<times> walb_dev" where
  "ioctl_wdev_create_snapshot cfg e ctl wdev =
     (if sizeof_struct_walb_snapshot_record > u2k_buf_size ctl then (- EFAULT, ctl, wdev)
      else case u2k_buf ctl of
             None \<Rightarrow> (- EFAULT, ctl, wdev)
           | Some srec0 \<Rightarrow>
               (let srec = (if lsid srec0 = INVALID_LSID
                            then srec0\<lparr>lsid := get_completed_lsid cfg wdev\<rparr>
                            else srec0);
                    ctl1 = ctl\<lparr>u2k_buf := Some srec\<rparr>
                in if \<not> is_valid_snapshot_name cfg (name srec) then (- EFAULT, ctl1, wdev)
                   else case snapshot_add cfg e (snapd wdev) (name srec) (lsid srec)
                               (timestamp srec) of
                          (Some err, sd) \<Rightarrow>
                            (- EFAULT, ctl1\<lparr>error := Some err\<rparr>, wdev\<lparr>snapd := sd\<rparr>)
                        | (None, sd) \<Rightarrow> (0, ctl1, wdev\<lparr>snapd := sd\<rparr>)))"

definition ioctl_wdev_get_written_lsid :: "walb_ctl \<Rightarrow> walb_dev \<Rightarrow> int \<times> walb_ctl \<times> walb_dev"
  where
  "ioctl_wdev_get_written_lsid ctl wdev = (0, ctl\<lparr>val_u64 := get_written_lsid wdev\<rparr>, wdev)"

definition ioctl_wdev_get_completed_lsid ::
  "config \<Rightarrow> walb_ctl \<Rightarrow> walb_dev \<Rightarrow> int \<times> walb_ctl \<times> walb_dev" where
  "ioctl_wdev_get_completed_lsid cfg ctl wdev =
     (0, ctl\<lparr>val_u64 := get_completed_lsid cfg wdev\<rparr>, wdev)"

definition ioctl_wdev_resize :: "env \<Rightarrow> walb_ctl \<Rightarrow> walb_dev \<Rightarrow> int \<times> walb_ctl \<times> walb_dev"
  where
  "ioctl_wdev_resize e ctl wdev =
     (let old_size = gd_capacity wdev;
          ddev_sz = ddev_nr_sects wdev;
          new_size = (if val_u64 ctl = 0 then ddev_sz else val_u64 ctl)
      in if new_size < old_size then (- EFAULT, ctl, wdev)
         else if new_size > ddev_sz then (- EFAULT, ctl, wdev)
         else if new_size = old_size then (0, ctl, wdev)
         else (let wdev1 = wdev\<lparr>size_wdev := new_size, ddev_size := ddev_sz\<rparr>;
                   (ok, cap) = resize_disk e (gd_capacity wdev1) new_size;
                   wdev2 = wdev1\<lparr>gd_capacity := cap\<rparr>
               in if \<not> ok then (- EFAULT, ctl, wdev2)
                  else (let (ok2, wdev3) = walb_sync_super_block e wdev2
                        in if \<not> ok2 then (- EFAULT, ctl, wdev3) else (0, ctl, wdev3))))"

text \<open>
  \<open>ioctl_wdev_clear_log\<close>.  The labels \<open>error1\<close> and \<open>error2\<close> of the source are the
  functions \<open>clear_log_error1\<close> and \<open>clear_log_error2\<close>; \<open>error0\<close> returns at once.
  \<open>clear_log_grow\<close> is the block that grows the walblog device, \<open>clear_log_commit\<close> is the
  part from the generation of the uuid to the end.
\<close>

definition clear_log_error1 :: "walb_ctl \<Rightarrow> walb_dev \<Rightarrow> int \<times> walb_ctl \<times> walb_dev" where
  "clear_log_error1 ctl wdev = (- EFAULT, ctl, iocore_melt (start_checkpointing wdev))"

definition clear_log_error2 ::
  "walb_ctl \<Rightarrow> lsid_set \<Rightarrow> u64 \<Rightarrow> walb_dev \<Rightarrow> int \<times> walb_ctl \<times> walb_dev" where
  "clear_log_error2 ctl lsids0 old_ring_buffer_size wdev =
     clear_log_error1 ctl
       ((restore_lsid_set wdev lsids0)\<lparr>ring_buffer_size := old_ring_buffer_size\<rparr>)"

definition clear_log_grow :: "config \<Rightarrow> env \<Rightarrow> walb_dev \<Rightarrow> u64 \<Rightarrow> (bool \<times> walb_dev) option"
  where
  "clear_log_grow cfg e wdev new_ldev_size =
     (let (ok, cap) = resize_disk e (log_gd_capacity wdev) new_ldev_size;
          wdev1 = wdev\<lparr>log_gd_capacity := cap\<rparr>
      in if \<not> ok then Some (False, iocore_set_readonly wdev1)
         else case get_ring_buffer_offset (PAGE_SIZE cfg) (physical_bs wdev1)
                     (n_snapshots wdev1) of
                None \<Rightarrow> None
              | Some roff \<Rightarrow>
                  Some (True,
                        wdev1\<lparr>ldev_size := new_ldev_size,
                              ring_buffer_size :=
                                addr_pb cfg (physical_bs wdev1) new_ldev_size - roff\<rparr>))"

definition clear_log_commit ::
  "config \<Rightarrow> env \<Rightarrow> walb_ctl \<Rightarrow> lsid_set \<Rightarrow> u64 \<Rightarrow> walb_dev \<Rightarrow>
     (int \<times> walb_ctl \<times> walb_dev) option" where
  "clear_log_commit cfg e ctl lsids0 old_ring_buffer_size wdev =
     (let new_uuid = random_uuid e;
          new_salt = random_salt e;
          wdev1 = wdev\<lparr>log_checksum_salt := new_salt\<rparr>;
          old_uuid = uuid (lsuper0 wdev1);
          super = (lsuper0 wdev1)\<lparr>uuid := new_uuid,
                     walb_super_sector.ring_buffer_size := ring_buffer_size wdev1,
                     walb_super_sector.log_checksum_salt := new_salt\<rparr>;
          wdev2 = wdev1\<lparr>lsuper0 := super\<rparr>
      in case get_offset_of_lsid_2 (PAGE_SIZE cfg) super 0 of
           None \<Rightarrow> None
         | Some lsid0_off \<Rightarrow>
             (let (ok, wdev3) = walb_sync_super_block e wdev2
              in if \<not> ok
                 then Some (clear_log_error2 ctl lsids0 old_ring_buffer_size
                              (iocore_set_readonly wdev3))
                 else if alldevs_update_uuid_ret e \<noteq> 0
                 then Some (clear_log_error2 ctl lsids0 old_ring_buffer_size
                              (iocore_set_readonly wdev3))
                 else (let wdev4 = wdev3\<lparr>alldevs_uuid := new_uuid\<rparr>
                       in case invalidate_lsid cfg e wdev4 0 of
                            None \<Rightarrow> None
                          | Some (False, wdev5) \<Rightarrow>
                              Some (clear_log_error2 ctl lsids0 old_ring_buffer_size
                                      (iocore_set_readonly wdev5))
                          | Some (True, wdev5) \<Rightarrow>
                              (let (n, sd) = snapshot_del_range e (snapd wdev5) 0
                                               (MAX_LSID cfg + 1)
                               in if n < 0
                                  then Some (clear_log_error2 ctl lsids0 old_ring_buffer_size
                                               (iocore_set_readonly (wdev5\<lparr>snapd := sd\<rparr>)))
                                  else Some (0, ctl,
                                             iocore_melt
                                               (start_checkpointing
                                                  (iocore_clear_log_overflow
                                                     (wdev5\<lparr>snapd := sd\<rparr>))))))))"

definition ioctl_wdev_clear_log ::
  "config \<Rightarrow> env \<Rightarrow> walb_ctl \<Rightarrow> walb_dev \<Rightarrow> (int \<times> walb_ctl \<times> walb_dev) option" where
  "ioctl_wdev_clear_log cfg e ctl wdev =
     (let wdev1 = stop_checkpointing (iocore_freeze wdev);
          old_ldev_size = ldev_size wdev1;
          new_ldev_size = ldev_nr_sects wdev1
      in if old_ldev_size > new_ldev_size then Some (- EFAULT, ctl, wdev1)
         else (let old_ring_buffer_size = ring_buffer_size wdev1;
                   lsids0 = backup_lsid_set wdev1;
                   wdev2 = wdev1\<lparr>lsids := (lsids wdev1)
                              \<lparr>latest := 0, flush := 0,
                               completed := (if WALB_FAST_ALGORITHM cfg then 0
                                             else completed (lsids wdev1)),
                               permanent := 0, written := 0, prev_written := 0,
                               oldest := 0\<rparr>\<rparr>
               in if old_ldev_size < new_ldev_size
                  then (case clear_log_grow cfg e wdev2 new_ldev_size of
                          None \<Rightarrow> None
                        | Some (False, wdev3) \<Rightarrow> Some (clear_log_error1 ctl wdev3)
                        | Some (True, wdev3) \<Rightarrow>
                            clear_log_commit cfg e ctl lsids0 old_ring_buffer_size wdev3)
                  else clear_log_commit cfg e ctl lsids0 old_ring_buffer_size wdev2))"

definition ioctl_wdev_is_log_overflow :: "walb_ctl \<Rightarrow> walb_dev \<Rightarrow> int \<times> walb_ctl \<times> walb_dev"
  where
  "ioctl_wdev_is_log_overflow ctl wdev =
     (0, ctl\<lparr>val_int := (if iocore_is_log_overflow wdev then 1 else 0)\<rparr>, wdev)"

definition ioctl_wdev_freeze :: "walb_ctl \<Rightarrow> walb_dev \<Rightarrow> int \<times> walb_ctl \<times> walb_dev" where
  "ioctl_wdev_freeze ctl wdev =
     (let timeout_sec = (if val_u32 ctl > 86400 then 86400 else val_u32 ctl);
          (ok, wdev1) = freeze_if_melted (cancel_melt_work wdev) timeout_sec
      in if ok then (0, ctl, wdev1) else (- EFAULT, ctl, wdev1))"

definition ioctl_wdev_is_frozen :: "walb_ctl \<Rightarrow> walb_dev \<Rightarrow> int \<times> walb_ctl \<times> walb_dev" where
  "ioctl_wdev_is_frozen ctl wdev =
     (0, ctl\<lparr>val_int := (if freeze_state wdev = FRZ_MELTED then 0 else 1)\<rparr>, wdev)"

definition ioctl_wdev_melt :: "walb_ctl \<Rightarrow> walb_dev \<Rightarrow> int \<times> walb_ctl \<times> walb_dev" where
  "ioctl_wdev_melt ctl wdev =
     (let (ok, wdev1) = melt_if_frozen (cancel_melt_work wdev) True
      in if ok then (0, ctl, wdev1) else (- EFAULT, ctl, wdev1))"

section \<open>module/none\_req.c: preparing a device, and the redo step\<close>

text \<open>
  Modelled from the spec: \<open>execute_redo\<close> (redo.c is not among the sources), after section
  4.7.  Starting at \<open>written\<close>, the header at the offset of the cursor is read and validated
  with the current salt; a header that does not validate or whose \<open>logpack_lsid\<close> is not the
  cursor ends the log.  The records of a valid pack are applied in order: the payload of a
  record that is not a padding is read from the ring, its checksum is compared, and it is
  written to the data device.  When the payload of a record does not validate, the header
  is rewritten with the records before it and the redo stops behind that truncated pack.
  The next pack starts at the lsid of the pack plus its size, one plus the sum of the
  \<open>io_size\<close>s.  After stopping, \<open>written\<close>, \<open>permanent\<close>, \<open>completed\<close>, \<open>latest\<close> and
  \<open>flush\<close> are set to the cursor and the super block is persisted.

  A failed read or write makes the redo fail.  The loop has fuel; \<open>None\<close> stands for a run
  that does not return (no fuel left, or a trap in the offset computation).
\<close>

text \<open>
  Modelled from the spec: what applying the records of one pack gives: all records applied,
  the payload of record \<open>k\<close> invalid after the records before it have been applied, or a
  failed read or write (redo.c is missing).
\<close>

datatype redo_pack_result = Applied walb_dev | Stopped nat walb_dev | IoFailed

text \<open>
  Modelled from the spec: the payload of a record, the \<open>io_size\<close> sectors that start at its
  lsid in the ring (redo.c is missing).
\<close>

definition read_payload :: "config \<Rightarrow> walb_dev \<Rightarrow> u64 \<Rightarrow> u32 \<Rightarrow> sector list option" where
  "read_payload cfg wdev l n =
     those (map (\<lambda>i. map_option (ldev wdev)
                        (get_offset_of_lsid_2 (PAGE_SIZE cfg) (lsuper0 wdev) (l + of_nat i)))
              [0 ..< unat n])"

text \<open>
  Modelled from the spec: a record is applied by writing its payload to the data device at
  its offset (redo.c is missing).
\<close>

definition write_data :: "walb_dev \<Rightarrow> u64 \<Rightarrow> sector list \<Rightarrow> walb_dev" where
  "write_data wdev off payload =
     wdev\<lparr>ddev := fold (\<lambda>(i, sect) d. d(off + of_nat i := sect)) (enumerate 0 payload)
                     (ddev wdev)\<rparr>"

text \<open>
  Modelled from the spec: the records of a pack are applied in order; a padding has no
  payload; the first payload whose checksum fails stops the pack (redo.c is missing).
\<close>

fun redo_records ::
  "config \<Rightarrow> env \<Rightarrow> walb_dev \<Rightarrow> u64 \<Rightarrow> nat \<Rightarrow> walb_log_record list \<Rightarrow> redo_pack_result option"
  where
  "redo_records cfg e wdev pack_lsid k [] = Some (Applied wdev)"
| "redo_records cfg e wdev pack_lsid k (r # rs) =
     (if is_padding r then redo_records cfg e wdev pack_lsid (Suc k) rs
      else case read_payload cfg wdev (pack_lsid + ucast (lsid_local r)) (io_size r) of
             None \<Rightarrow> None
           | Some payload \<Rightarrow>
               if \<not> ldev_read_ok e then Some IoFailed
               else if checksum_payload cfg payload (log_checksum_salt wdev) \<noteq> checksum r
               then Some (Stopped k wdev)
               else if \<not> ddev_write_ok e then Some IoFailed
               else redo_records cfg e (write_data wdev (offset r) payload) pack_lsid
                      (Suc k) rs)"

text \<open>
  Modelled from the spec: the truncated header that reflects only the first \<open>k\<close> records
  (redo.c is missing).
\<close>

definition truncate_logpack_header :: "walb_logpack_header \<Rightarrow> nat \<Rightarrow> walb_logpack_header" where
  "truncate_logpack_header logh k =
     logh\<lparr>recs := take k (recs logh),
          n_records := of_nat k,
          total_io_size := sum_list (map io_size (take k (recs logh)))\<rparr>"

text \<open>
  Modelled from the spec: the loop over the packs, with its stop conditions (redo.c is
  missing).
\<close>

fun redo_loop ::
  "nat \<Rightarrow> config \<Rightarrow> env \<Rightarrow> walb_dev \<Rightarrow> u64 \<Rightarrow> (bool \<times> u64 \<times> walb_dev) option" where
  "redo_loop 0 cfg e wdev cursor = None"
| "redo_loop (Suc fuel) cfg e wdev cursor =
     (case get_offset_of_lsid_2 (PAGE_SIZE cfg) (lsuper0 wdev) cursor of
        None \<Rightarrow> None
      | Some off \<Rightarrow>
          if \<not> ldev_read_ok e then Some (False, cursor, wdev)
          else let sect = ldev wdev off;
                   logh = get_logpack_header cfg sect
               in if \<not> is_valid_logpack_header_with_checksum cfg sect (physical_bs wdev)
                         (log_checksum_salt wdev)
                     \<or> logpack_lsid logh \<noteq> cursor
                  then Some (True, cursor, wdev)
                  else case redo_records cfg e wdev cursor 0 (recs logh) of
                         None \<Rightarrow> None
                       | Some IoFailed \<Rightarrow> Some (False, cursor, wdev)
                       | Some (Applied wdev1) \<Rightarrow>
                           redo_loop fuel cfg e wdev1 (cursor + 1 + ucast (total_io_size logh))
                       | Some (Stopped k wdev1) \<Rightarrow>
                           (let logh1 = truncate_logpack_header logh k
                            in if \<not> ldev_write_ok e then Some (False, cursor, wdev1)
                               else Some (True, cursor + 1 + ucast (total_io_size logh1),
                                          wdev1\<lparr>ldev := (ldev wdev1)
                                                   (off := set_logpack_header cfg logh1
                                                             (physical_bs wdev1)
                                                             (log_checksum_salt wdev1))\<rparr>)))"

text \<open>
  Modelled from the spec: \<open>execute_redo\<close> (redo.c is missing): the loop from \<open>written\<close>,
  then the five LSIDs are set to the cursor and the super block is persisted.
\<close>

definition execute_redo :: "nat \<Rightarrow> config \<Rightarrow> env \<Rightarrow> walb_dev \<Rightarrow> (bool \<times> walb_dev) option" where
  "execute_redo fuel cfg e wdev =
     (case redo_loop fuel cfg e wdev (written (lsids wdev)) of
        None \<Rightarrow> None
      | Some (ok, cursor, wdev1) \<Rightarrow>
          if \<not> ok then Some (False, wdev1)
          else Some (walb_sync_super_block e
                       (wdev1\<lparr>lsids := (lsids wdev1)
                                 \<lparr>written := cursor, permanent := cursor, completed := cursor,
                                  latest := cursor, flush := cursor\<rparr>\<rparr>)))"

text \<open>
  \<open>prepare_wdev\<close>, from the point where the super sector has been loaded: the LSIDs and the
  sizes are taken from the super sector, then the redo runs.  The result is the prepared
  device or \<open>NULL\<close> (the inner \<open>None\<close>); the outer \<open>None\<close> is a run that does not return.
  The steps between the two (parameters, device name, gendisks, pipeline) do not touch the
  LSIDs and are left out.  The debug assertions after the redo are
  \<open>prepare_wdev_asserts\<close>.
\<close>

definition prepare_wdev :: "nat \<Rightarrow> config \<Rightarrow> env \<Rightarrow> walb_dev \<Rightarrow> walb_dev option option" where
  "prepare_wdev fuel cfg e wdev =
     (let super = lsuper0 wdev;
          ls0 = lsids wdev;
          ls1 = ls0\<lparr>oldest := oldest_lsid super\<rparr>;
          ls2 = ls1\<lparr>prev_written := written ls1\<rparr>;
          ls3 = ls2\<lparr>written := written_lsid super\<rparr>;
          ls4 = ls3\<lparr>permanent := written ls3\<rparr>;
          ls5 = (if WALB_FAST_ALGORITHM cfg then ls4\<lparr>completed := written ls4\<rparr> else ls4);
          ls6 = ls5\<lparr>latest := written ls5\<rparr>
      in case get_ring_buffer_offset_2 (PAGE_SIZE cfg) super of
           None \<Rightarrow> None
         | Some roff \<Rightarrow>
             (let wdev1 = wdev\<lparr>lsids := ls6,
                               ring_buffer_size := walb_super_sector.ring_buffer_size super,
                               ring_buffer_off := roff,
                               log_checksum_salt := walb_super_sector.log_checksum_salt super,
                               size_wdev := device_size super\<rparr>
              in if size_wdev wdev1 > ddev_size wdev1 then Some None
                 else case execute_redo fuel cfg e wdev1 of
                        None \<Rightarrow> None
                      | Some (retb, wdev2) \<Rightarrow>
                          if \<not> retb then Some None else Some (Some wdev2)))"

definition prepare_wdev_asserts :: "config \<Rightarrow> walb_dev \<Rightarrow> bool" where
  "prepare_wdev_asserts cfg wdev \<longleftrightarrow>
     written (lsids wdev) = latest (lsids wdev) \<and>
     written (lsids wdev) = flush (lsids wdev) \<and>
     (WALB_FAST_ALGORITHM cfg \<longrightarrow> written (lsids wdev) = completed (lsids wdev))"

section \<open>The claim of the specification about SET\_OLDEST\_LSID\<close>

text \<open>
  The condition of the specification on a new oldest lsid, in its words: the sector at the
  ring-buffer offset of the lsid holds a log pack header that validates under the current
  checksum salt and whose \<open>logpack_lsid\<close> is the lsid.
\<close>

definition lsid_holds_valid_logpack :: "config \<Rightarrow> walb_dev \<Rightarrow> u64 \<Rightarrow> bool" where
  "lsid_holds_valid_logpack cfg wdev l =
     (case get_offset_of_lsid_2 (PAGE_SIZE cfg) (lsuper0 wdev) l of
        None \<Rightarrow> False
      | Some off \<Rightarrow>
          is_valid_logpack_header_with_checksum cfg (ldev wdev off) (physical_bs wdev)
            (log_checksum_salt wdev)
          \<and> logpack_lsid (get_logpack_header cfg (ldev wdev off)) = l)"

section \<open>Example values\<close>

text \<open>
  A small device for the concrete runs below: sectors of 512 bytes, three metadata sectors
  (the ring starts at sector 13), a ring of 1024 sectors.  The example codec reads a header
  sector as the salt, the lsid of the pack and one pair of \<open>io_size\<close> and checksum for each
  record; the checksum of a payload is the salt plus the first bytes of its sectors.  The
  log holds a pack header at lsid 5 and a pack with one record of two sectors at lsid 10.
\<close>

fun example_decode_records :: "u8 list \<Rightarrow> u32 \<Rightarrow> walb_log_record list" where
  "example_decode_records (n # c # rest) local =
     \<lparr>is_exist = True, is_padding = False, is_discard = False, offset = 100,
      io_size = ucast n, lsid_local = local, checksum = ucast c\<rparr>
     # example_decode_records rest (local + ucast n)"
| "example_decode_records rest local = []"

definition example_get_logpack_header :: "sector \<Rightarrow> walb_logpack_header" where
  "example_get_logpack_header s =
     (case s of
        salt # l # rest \<Rightarrow>
          \<lparr>logpack_lsid = ucast l,
           total_io_size = sum_list (map io_size (example_decode_records rest 1)),
           n_records = of_nat (length (example_decode_records rest 1)),
           recs = example_decode_records rest 1\<rparr>
      | _ \<Rightarrow> \<lparr>logpack_lsid = 0, total_io_size = 0, n_records = 0, recs = []\<rparr>)"

definition example_config :: config where
  "example_config =
     \<lparr>WALB_FAST_ALGORITHM = True, PAGE_SIZE = 4096, MAX_LSID = - 2, INVALID_SNAPSHOT_ID = - 1,
      addr_pb = (\<lambda>pbs addr_lb. addr_lb div ucast (pbs div 512)),
      get_logpack_header = example_get_logpack_header,
      is_valid_logpack_header_with_checksum =
        (\<lambda>s pbs salt. case s of [] \<Rightarrow> False | b # rest \<Rightarrow> ucast b = salt),
      set_logpack_header =
        (\<lambda>h pbs salt. ucast salt # ucast (logpack_lsid h)
           # concat (map (\<lambda>r. [ucast (io_size r), ucast (checksum r)]) (recs h))),
      checksum_payload =
        (\<lambda>p salt. salt + sum_list (map (\<lambda>s. case s of [] \<Rightarrow> 0 | b # rest \<Rightarrow> ucast b) p)),
      is_valid_snapshot_name = (\<lambda>nm. nm \<noteq> [])\<rparr>"

definition example_env :: env where
  "example_env =
     \<lparr>sector_alloc_ok = True, ldev_read_ok = True, ldev_write_ok = True, ddev_write_ok = True,
      write_super_ok = True, bdget_disk_ok = True, alldevs_update_uuid_ret = 0,
      snapshot_io_ok = True, random_uuid = replicate 16 1, random_salt = 9\<rparr>"

definition example_ctl :: walb_ctl where
  "example_ctl =
     \<lparr>val_u64 = 0, val_u32 = 0, val_int = 0, error = None, u2k_buf_size = 0, u2k_buf = None\<rparr>"

definition example_super :: walb_super_sector where
  "example_super = \<lparr>walb_super_sector.checksum = 0, sector_size = 512,
     snapshot_metadata_size = 3, uuid = [], walb_super_sector.ring_buffer_size = 1024,
     oldest_lsid = 0, written_lsid = 10, device_size = 100,
     walb_super_sector.log_checksum_salt = 7\<rparr>"

definition example_wdev :: walb_dev where
  "example_wdev =
     \<lparr>lsids = \<lparr>latest = 20, flush = 20, completed = 20, permanent = 20, written = 10,
               prev_written = 10, oldest = 0\<rparr>,
      ring_buffer_size = 1024, ring_buffer_off = 13, ldev_size = 2048, ddev_size = 200,
      size_wdev = 100, physical_bs = 512, n_snapshots = 13, log_checksum_salt = 7,
      lsuper0 = example_super, is_read_only = False, freeze_state = FRZ_MELTED,
      freeze_dwork = None,
      snapd = \<lparr>records = [\<lparr>lsid = 5, timestamp = 1, name = ''s1'', snapshot_id = 0\<rparr>],
                next_snapshot_id = 1, max_n_records = 78\<rparr>,
      gd_capacity = 100, log_gd_capacity = 2048, ldev_nr_sects = 2048, ddev_nr_sects = 200,
      ldev = (\<lambda>off. [])(18 := [7, 5], 23 := [7, 10, 2, 10], 24 := [1], 25 := [2]),
      ddev = (\<lambda>off. []),
      ldev_super = Some example_super, alldevs_uuid = [], log_overflow = True, calls = []\<rparr>"

section \<open>Conversions between the integer types\<close>

lemma uint_scast_nonneg:
  fixes w :: "32 word"
  assumes "0 \<le> sint w"
  shows "uint (scast w :: 64 word) = sint w"
proof -
  have "sint w < 2 ^ 31" using sint_lt [of w] by simp
  also have "(2::int) ^ 31 < 2 ^ 64" by simp
  finally have lt: "sint w < 2 ^ 64" .
  have "uint (scast w :: 64 word) = sint w mod 2 ^ 64"
    unfolding scast_eq by (simp only: uint_word_of_int len_bit0 len_num1 mult_1_right) simp
  also have "\<dots> = sint w" using assms lt by (rule mod_pos_pos_trivial)
  finally show ?thesis .
qed

lemma sint_ucast_small:
  fixes w :: "64 word"
  assumes "uint w < 2 ^ 31"
  shows "sint (ucast w :: 32 word) = uint w"
proof -
  have "- (2 ^ 31) \<le> (0::int)" by simp
  also have "0 \<le> uint w" by (rule uint_nonnegative)
  finally have "- (2 ^ 31) \<le> uint w" .
  then have "signed_take_bit 31 (uint w) = uint w"
    using assms by (intro signed_take_bit_int_eq_self)
  then show ?thesis by (simp add: signed_ucast_eq)
qed

lemma sint_word_of_int_small:
  assumes "- (2 ^ 31) \<le> k" "k < 2 ^ 31"
  shows "sint (word_of_int k :: 32 word) = k"
  using assms by (simp add: sint_sbintrunc' signed_take_bit_int_eq_self)

lemma ucast_eq_scast_if:
  fixes a m :: "32 word"
  assumes "uint a = sint m"
  shows "(ucast a :: 64 word) = scast m"
proof -
  have "(ucast a :: 64 word) = word_of_int (uint a)" by (rule ucast_eq)
  also have "\<dots> = word_of_int (sint m)" by (simp only: assms)
  also have "\<dots> = scast m" by (rule scast_eq [symmetric])
  finally show ?thesis .
qed

lemma ceiling_as_div:
  fixes n t :: int
  assumes "1 \<le> t"
  shows "\<lceil>real_of_int n / real_of_int t\<rceil> = (n + t - 1) div t"
proof (rule ceiling_unique)
  let ?r = "(n + t - 1) div t"
  define m where "m = (n + t - 1) mod t"
  have tpos: "0 < t" using assms by simp
  have m: "m < t" "0 \<le> m"
    using tpos by (simp_all add: m_def)
  have e: "t * ?r + m = n + t - 1" by (simp add: m_def)
  have lo: "t * (?r - 1) < n" using e m by (simp add: algebra_simps)
  have hi: "n \<le> t * ?r" using e m by (simp add: algebra_simps)
  have "real_of_int (t * (?r - 1)) < real_of_int n" using lo by (simp only: of_int_less_iff)
  then have "real_of_int t * (real_of_int ?r - 1) < real_of_int n" by simp
  then show "real_of_int ?r - 1 < real_of_int n / real_of_int t"
    using tpos by (simp add: pos_less_divide_eq mult.commute)
  have "real_of_int n \<le> real_of_int (t * ?r)" using hi by (simp only: of_int_le_iff)
  then have "real_of_int n \<le> real_of_int t * real_of_int ?r" by simp
  then show "real_of_int n / real_of_int t \<le> real_of_int ?r"
    using tpos by (simp add: pos_divide_le_eq mult.commute)
qed

section \<open>The layout of the log device\<close>

lemma max_n_value:
  fixes ss :: "32 word"
  assumes "88 \<le> sint ss"
  shows "sint (max_n_snapshots_in_sector ss) = min ((sint ss - 8) div 80) 32"
proof -
  let ?k = "sint ss"
  have k31: "?k < 2 ^ 31" using sint_lt [of ss] by simp
  have u: "uint (scast ss :: 64 word) = ?k"
    using assms by (intro uint_scast_nonneg) simp
  have "uint (8 :: 64 word) \<le> uint (scast ss :: 64 word)" using u assms by simp
  then have s: "uint ((scast ss :: 64 word) - 8) = ?k - 8"
    using u by (simp add: uint_sub_lem [THEN iffD1])
  have d: "uint (((scast ss :: 64 word) - 8) div 80) = (?k - 8) div 80"
    by (simp add: uint_div s)
  have small: "(?k - 8) div 80 < 2 ^ 31" using k31 by simp
  have c: "sint (ucast (((scast ss :: 64 word) - 8) div 80) :: 32 word) = (?k - 8) div 80"
    using sint_ucast_small [of "((scast ss :: 64 word) - 8) div 80"] d small by simp
  show ?thesis
    unfolding max_n_snapshots_in_sector_def Let_def sizeof_walb_snapshot_sector_t_def
      sizeof_walb_snapshot_record_t_def
    using c by (simp add: word_sless_alt min_def)
qed

lemma max_n_range:
  fixes ss :: "32 word"
  assumes "88 \<le> sint ss"
  shows "1 \<le> sint (max_n_snapshots_in_sector ss)"
    and "sint (max_n_snapshots_in_sector ss) \<le> 32"
  using max_n_value [OF assms] assms by simp_all

lemma get_metadata_size_ceiling:
  fixes ss n :: "32 word"
  assumes ss: "88 \<le> sint ss"
    and n0: "0 \<le> sint n"
    and nmax: "sint n + sint (max_n_snapshots_in_sector ss) - 1 < 2 ^ 31"
  shows "\<exists>r. get_metadata_size ss n = Some r \<and>
     sint r = \<lceil>real_of_int (sint n) / real_of_int (sint (max_n_snapshots_in_sector ss))\<rceil>"
proof -
  let ?t = "max_n_snapshots_in_sector ss"
  have t1: "1 \<le> sint ?t" and t32: "sint ?t \<le> 32" using max_n_range [OF ss] by simp_all
  have tnz: "?t \<noteq> 0" using t1 by auto
  have sum: "sint (n + ?t - 1) = sint n + sint ?t - 1"
  proof -
    have "n + ?t - 1 = word_of_int (sint n + sint ?t - 1)" by simp
    then show ?thesis
      using sint_word_of_int_small [of "sint n + sint ?t - 1"] n0 t1 nmax by simp
  qed
  have q: "(sint n + sint ?t - 1) sdiv sint ?t = (sint n + sint ?t - 1) div sint ?t"
    using n0 t1 by (simp add: signed_divide_int_def sgn_if)
  have qb: "0 \<le> (sint n + sint ?t - 1) div sint ?t"
    using n0 t1 by (simp add: pos_imp_zdiv_nonneg_iff)
  have qb2: "(sint n + sint ?t - 1) div sint ?t \<le> sint n + sint ?t - 1"
    using n0 t1 int_div_le_self [of "sint n + sint ?t - 1" "sint ?t"] by force
  have r: "sint (int_div (n + ?t - 1) ?t) = (sint n + sint ?t - 1) div sint ?t"
    unfolding int_div_def sum q
    using qb qb2 nmax by (intro sint_word_of_int_small) simp_all
  show ?thesis
    using tnz r ceiling_as_div [OF t1, of "sint n"]
    by (simp add: get_metadata_size_def Let_def)
qed

text \<open>
  C8.  For every sector size that divides \<open>PAGE_SIZE\<close> (and is not 0, so that the division
  is defined): the primary super sector is at \<open>PAGE_SIZE / sector_size\<close>, the metadata starts
  one sector later, the secondary super sector follows the metadata sectors and the ring
  buffer starts one sector after it, in the family that takes a super sector
  (\<open>snapshot_metadata_size\<close> sectors of metadata) and in the family that takes
  \<open>n_snapshots\<close> (\<open>get_metadata_size\<close> sectors).  The two families return the same offsets
  when the super sector has that sector size and its \<open>snapshot_metadata_size\<close> is the value
  of \<open>get_metadata_size(sector_size, n_snapshots)\<close>.
\<close>

theorem layout_offsets:
  fixes page_size :: u64 and sector_sz n_snapshots :: s32
  assumes nz: "(scast sector_sz :: u64) \<noteq> 0"
    and dvd: "page_size mod scast sector_sz = 0"
  shows "get_super_sector0_offset page_size sector_sz = Some (page_size div scast sector_sz)
    \<and> get_metadata_offset page_size sector_sz = Some (page_size div scast sector_sz + 1)
    \<and> (sector_size super = sector_sz \<longrightarrow>
         get_super_sector0_offset_2 page_size super = Some (page_size div scast sector_sz)
         \<and> get_metadata_offset_2 page_size super = Some (page_size div scast sector_sz + 1)
         \<and> get_super_sector1_offset_2 page_size super =
             Some (page_size div scast sector_sz + 1 + ucast (snapshot_metadata_size super))
         \<and> get_ring_buffer_offset_2 page_size super =
             Some (page_size div scast sector_sz + 1 + ucast (snapshot_metadata_size super) + 1))
    \<and> (\<forall>m. get_metadata_size sector_sz n_snapshots = Some m \<longrightarrow>
         get_super_sector1_offset page_size sector_sz n_snapshots =
           Some (page_size div scast sector_sz + 1 + scast m)
         \<and> get_ring_buffer_offset page_size sector_sz n_snapshots =
             Some (page_size div scast sector_sz + 1 + scast m + 1)
         \<and> (sector_size super = sector_sz \<and> uint (snapshot_metadata_size super) = sint m \<longrightarrow>
              get_super_sector0_offset_2 page_size super =
                get_super_sector0_offset page_size sector_sz
              \<and> get_metadata_offset_2 page_size super = get_metadata_offset page_size sector_sz
              \<and> get_super_sector1_offset_2 page_size super =
                  get_super_sector1_offset page_size sector_sz n_snapshots
              \<and> get_ring_buffer_offset_2 page_size super =
                  get_ring_buffer_offset page_size sector_sz n_snapshots))"
  using nz
  by (auto simp: get_super_sector0_offset_def get_metadata_offset_def
      get_super_sector1_offset_def get_ring_buffer_offset_def get_super_sector0_offset_2_def
      get_metadata_offset_2_def get_super_sector1_offset_2_def get_ring_buffer_offset_2_def
      ucast_eq_scast_if)

theorem layout_offsets_witness:
  "(scast (512 :: s32) :: u64) \<noteq> 0 \<and> (4096 :: u64) mod scast (512 :: s32) = 0
   \<and> get_metadata_size 512 13 = Some 3
   \<and> sector_size example_super = 512
   \<and> uint (snapshot_metadata_size example_super) = sint (3 :: s32)
   \<and> get_super_sector0_offset 4096 512 = Some 8
   \<and> get_metadata_offset 4096 512 = Some 9
   \<and> get_super_sector1_offset 4096 512 13 = Some 12
   \<and> get_ring_buffer_offset 4096 512 13 = Some 13
   \<and> get_super_sector1_offset_2 4096 example_super = get_super_sector1_offset 4096 512 13
   \<and> get_ring_buffer_offset_2 4096 example_super = get_ring_buffer_offset 4096 512 13"
proof -
  have nz: "(scast (512 :: s32) :: u64) \<noteq> 0" by simp
  have dvd: "(4096 :: u64) mod scast (512 :: s32) = 0" by simp
  have gm: "get_metadata_size 512 13 = Some 3"
    by (simp add: get_metadata_size_def max_n_snapshots_in_sector_def Let_def int_div_def
        sizeof_walb_snapshot_sector_t_def sizeof_walb_snapshot_record_t_def
        signed_divide_int_def)
  show ?thesis
    using layout_offsets [OF nz dvd, of example_super 13] gm nz dvd
    by (simp add: example_super_def)
qed

text \<open>
  C9, as the code has it.  For every sector size of at least 88 bytes (the header of a
  snapshot sector and one record), a sector holds \<open>min ((sector_size - 8) / 80) 32\<close>
  records, between 1 and 32.  For every \<open>n_snapshots\<close> that is not negative and for which
  \<open>n_snapshots + capacity - 1\<close> does not exceed \<open>INT_MAX\<close>, \<open>get_metadata_size\<close> returns the
  ceiling of \<open>n_snapshots\<close> divided by that capacity.
\<close>

theorem metadata_size_ceiling:
  fixes sector_sz n_snapshots :: s32
  assumes "88 \<le> sint sector_sz"
    and "0 \<le> sint n_snapshots"
    and "sint n_snapshots + sint (max_n_snapshots_in_sector sector_sz) - 1 < 2 ^ 31"
  shows "sint (max_n_snapshots_in_sector sector_sz) = min ((sint sector_sz - 8) div 80) 32
    \<and> 1 \<le> sint (max_n_snapshots_in_sector sector_sz)
    \<and> sint (max_n_snapshots_in_sector sector_sz) \<le> 32
    \<and> (\<exists>r. get_metadata_size sector_sz n_snapshots = Some r \<and>
          sint r = \<lceil>real_of_int (sint n_snapshots) /
                     real_of_int (sint (max_n_snapshots_in_sector sector_sz))\<rceil>)"
  using max_n_value [OF assms(1)] max_n_range [OF assms(1)]
    get_metadata_size_ceiling [OF assms]
  by simp

theorem metadata_size_ceiling_witness:
  "88 \<le> sint (512 :: s32) \<and> 0 \<le> sint (13 :: s32)
   \<and> sint (13 :: s32) + sint (max_n_snapshots_in_sector 512) - 1 < 2 ^ 31
   \<and> sint (max_n_snapshots_in_sector 512) = 6
   \<and> get_metadata_size 512 13 = Some 3
   \<and> \<lceil>real_of_int (sint (13 :: s32)) / real_of_int (sint (max_n_snapshots_in_sector 512))\<rceil> = 3"
proof -
  have m: "max_n_snapshots_in_sector 512 = 6"
    by (simp add: max_n_snapshots_in_sector_def Let_def sizeof_walb_snapshot_sector_t_def
        sizeof_walb_snapshot_record_t_def)
  have h1: "88 \<le> sint (512 :: s32)" by simp
  have h2: "0 \<le> sint (13 :: s32)" by simp
  have h3: "sint (13 :: s32) + sint (max_n_snapshots_in_sector 512) - 1 < 2 ^ 31"
    by (simp add: m)
  have gm: "get_metadata_size 512 13 = Some 3"
    by (simp add: get_metadata_size_def m Let_def int_div_def signed_divide_int_def)
  show ?thesis
    using metadata_size_ceiling [OF h1 h2 h3] gm m by simp
qed

text \<open>
  The claim C9 without the bounds on \<open>n_snapshots\<close> fails: C division truncates towards
  zero, so for a sector of 512 bytes (6 records) and \<open>n_snapshots = -12\<close> the result is
  \<open>(-12 + 6 - 1) / 6 = -1\<close>, and the ceiling of \<open>-12 / 6\<close> is \<open>-2\<close>.
\<close>

theorem metadata_size_ceiling_counterexample:
  "88 \<le> sint (512 :: s32)
   \<and> sint (max_n_snapshots_in_sector 512) = 6
   \<and> get_metadata_size 512 (- 12) = Some (- 1)
   \<and> sint (- 1 :: s32) \<noteq>
       \<lceil>real_of_int (sint (- 12 :: s32)) / real_of_int (sint (max_n_snapshots_in_sector 512))\<rceil>"
proof -
  have m: "max_n_snapshots_in_sector 512 = 6"
    by (simp add: max_n_snapshots_in_sector_def Let_def sizeof_walb_snapshot_sector_t_def
        sizeof_walb_snapshot_record_t_def)
  have gm: "get_metadata_size 512 (- 12) = Some (- 1)"
    by (simp add: get_metadata_size_def m Let_def int_div_def signed_divide_int_def)
  show ?thesis using gm m by simp
qed

section \<open>Freeze and melt\<close>

lemma clip_le: "(if (t::u32) > 86400 then 86400 else t) \<le> 86400"
  by (simp add: not_less)

lemma clip_unat:
  fixes t :: u32
  assumes "t \<le> 86400"
  shows "unat (t * 1000) = unat t * 1000"
proof -
  have "unat t \<le> 86400" using assms by (simp add: word_le_nat_alt)
  then have "unat t * unat (1000 :: u32) < 2 ^ LENGTH(32)" by simp
  then have "unat (t * 1000) = unat t * unat (1000 :: u32)"
    by (simp only: unat_mult_lem [THEN iffD1])
  then show ?thesis by simp
qed

text \<open>
  C6.  Every FREEZE request returns 0.  The timeout applied is the requested one cut to
  86400 seconds.  With timeout 0 the device is left in the state \<open>FRZ_FREEZED\<close>; with a
  positive timeout it is left in \<open>FRZ_FREEZED_WITH_TIMEOUT\<close> and the melt work is queued
  with a delay of that many seconds (in milliseconds, without wrap-around); when the work
  runs, the device is melted.  A device that was melted has its pipeline frozen and its
  checkpointing stopped.
\<close>

theorem freeze_timeout:
  assumes "ioctl_wdev_freeze ctl wdev = (ret, ctl', wdev')"
  shows "ret = 0
    \<and> (val_u32 ctl = 0 \<longrightarrow> freeze_state wdev' = FRZ_FREEZED)
    \<and> (val_u32 ctl \<noteq> 0 \<longrightarrow>
         freeze_state wdev' = FRZ_FREEZED_WITH_TIMEOUT
         \<and> freeze_dwork wdev' = Some (min (val_u32 ctl) 86400 * 1000)
         \<and> unat (min (val_u32 ctl) 86400 * 1000) = unat (min (val_u32 ctl) 86400) * 1000
         \<and> unat (min (val_u32 ctl) 86400) \<le> 86400
         \<and> freeze_state (task_melt wdev') = FRZ_MELTED)
    \<and> (freeze_state wdev = FRZ_MELTED \<longrightarrow>
         calls wdev' = calls wdev @ [IOCORE_FREEZE, STOP_CHECKPOINTING])
    \<and> (freeze_state wdev \<noteq> FRZ_MELTED \<longrightarrow> calls wdev' = calls wdev)"
proof -
  let ?t = "min (val_u32 ctl) 86400"
  have t: "(if val_u32 ctl > 86400 then 86400 else val_u32 ctl) = ?t"
    by (auto simp: min_def)
  have le: "?t \<le> 86400" by simp
  have u: "unat (?t * 1000) = unat ?t * 1000" using le by (rule clip_unat)
  have u2: "unat ?t \<le> 86400" using le by (simp add: word_le_nat_alt)
  have z: "val_u32 ctl = 0 \<longleftrightarrow> ?t = 0"
  proof (cases "val_u32 ctl \<le> 86400")
    case True
    then show ?thesis by (simp add: min_absorb1)
  next
    case False
    then have "86400 < val_u32 ctl" by simp
    then have "val_u32 ctl \<noteq> 0" "?t = 86400" by (auto simp: min_def)
    then show ?thesis by simp
  qed
  show ?thesis
    using assms u u2 unfolding ioctl_wdev_freeze_def t z
    by (cases "freeze_state wdev")
      (auto simp: Let_def freeze_if_melted_def cancel_melt_work_def task_melt_def
        iocore_freeze_def iocore_melt_def stop_checkpointing_def start_checkpointing_def
        word_gt_0 split: if_splits)
qed

text \<open>
  C7.  Every MELT request returns 0 and leaves the device in the state \<open>FRZ_MELTED\<close>.  On
  a frozen device checkpointing is restarted and the pipeline is melted; a pending melt work
  is cancelled first.  On a melted device nothing changes.  A second MELT returns 0 and
  changes nothing: MELT followed by MELT is a single MELT.
\<close>

theorem melt_idempotent:
  assumes "ioctl_wdev_melt ctl wdev = (ret, ctl', wdev')"
  shows "ret = 0 \<and> ctl' = ctl
    \<and> freeze_state wdev' = FRZ_MELTED
    \<and> (freeze_state wdev \<noteq> FRZ_MELTED \<longrightarrow>
         calls wdev' = calls wdev @ [START_CHECKPOINTING, IOCORE_MELT])
    \<and> (freeze_state wdev = FRZ_MELTED \<longrightarrow> wdev' = wdev)
    \<and> (freeze_state wdev = FRZ_FREEZED_WITH_TIMEOUT \<longrightarrow> freeze_dwork wdev' = None)
    \<and> ioctl_wdev_melt ctl' wdev' = (0, ctl', wdev')"
  using assms unfolding ioctl_wdev_melt_def
  by (cases "freeze_state wdev")
    (auto simp: Let_def melt_if_frozen_def cancel_melt_work_def
      iocore_melt_def start_checkpointing_def split: if_splits)

section \<open>Resize\<close>

text \<open>
  C5, as the code has it.  A requested size of 0 stands for the capacity of the data device.
  With that size: a size below the current capacity fails and changes nothing; a size above
  the capacity of the data device fails and changes nothing; the current size succeeds and
  changes nothing; otherwise the capacity and the size of the device become the new size,
  the super block is synced when the block device is found, and the request returns 0 if
  and only if that and the sync succeed.  In every case the sizes stay bounded by the size
  of the data device.
\<close>

theorem resize_grows_only:
  assumes "ioctl_wdev_resize e ctl wdev = (ret, ctl', wdev')"
    and "new_size = (if val_u64 ctl = 0 then ddev_nr_sects wdev else val_u64 ctl)"
  shows "(new_size < gd_capacity wdev \<longrightarrow> ret = - EFAULT \<and> wdev' = wdev)
    \<and> (ddev_nr_sects wdev < new_size \<longrightarrow> ret = - EFAULT \<and> wdev' = wdev)
    \<and> (new_size = gd_capacity wdev \<and> new_size \<le> ddev_nr_sects wdev \<longrightarrow>
         ret = 0 \<and> wdev' = wdev)
    \<and> (gd_capacity wdev < new_size \<and> new_size \<le> ddev_nr_sects wdev \<longrightarrow>
         gd_capacity wdev' = new_size \<and> size_wdev wdev' = new_size
         \<and> ddev_size wdev' = ddev_nr_sects wdev
         \<and> (bdget_disk_ok e \<longrightarrow> device_size (lsuper0 wdev') = new_size)
         \<and> (ret = 0 \<longleftrightarrow> bdget_disk_ok e \<and> write_super_ok e)
         \<and> (ret = 0 \<longrightarrow> ldev_super wdev' = Some (lsuper0 wdev'))
         \<and> (ret \<noteq> 0 \<longrightarrow> ret = - EFAULT))
    \<and> (gd_capacity wdev \<le> ddev_nr_sects wdev \<longrightarrow> gd_capacity wdev' \<le> ddev_nr_sects wdev')
    \<and> (size_wdev wdev \<le> ddev_size wdev \<longrightarrow> size_wdev wdev' \<le> ddev_size wdev')
    \<and> (device_size (lsuper0 wdev) \<le> ddev_nr_sects wdev \<longrightarrow>
         device_size (lsuper0 wdev') \<le> ddev_nr_sects wdev')"
  using assms unfolding ioctl_wdev_resize_def
  by (auto simp: Let_def resize_disk_def walb_sync_super_block_def EFAULT_def
      split: if_splits prod.splits)

section \<open>The oldest lsid and snapshots\<close>

lemma check_valid_iff:
  assumes "walb_check_lsid_valid cfg e wdev l = Some r"
  shows "r \<noteq> 0 \<longleftrightarrow> sector_alloc_ok e \<and> ldev_read_ok e \<and> lsid_holds_valid_logpack cfg wdev l"
  using assms
  by (auto simp: walb_check_lsid_valid_def lsid_holds_valid_logpack_def Let_def
      split: if_splits option.splits)

text \<open>
  C2, as the code has it.  A SET\_OLDEST\_LSID request that returns has succeeded if and only
  if the lsid is accepted (it is the written lsid, or it lies in \<open>[oldest, written)\<close> and
  the sector at its offset can be allocated and read and holds a valid log pack header with
  that lsid) and the super block could be synced.  On success \<open>oldest\<close> is the lsid and the
  super block is synced; when the lsid is not accepted, the request fails and the device is
  unchanged.
\<close>

theorem set_oldest_lsid_validated:
  assumes "ioctl_wdev_set_oldest_lsid cfg e ctl wdev = Some (ret, ctl', wdev')"
    and "l = val_u64 ctl"
    and "accepted \<longleftrightarrow>
           l = written (lsids wdev)
           \<or> (oldest (lsids wdev) \<le> l \<and> l < written (lsids wdev)
              \<and> sector_alloc_ok e \<and> ldev_read_ok e \<and> lsid_holds_valid_logpack cfg wdev l)"
  shows "(ret = 0 \<longleftrightarrow> accepted \<and> write_super_ok e)
    \<and> (ret \<noteq> 0 \<longrightarrow> ret = - EFAULT)
    \<and> (ret = 0 \<longrightarrow>
         oldest (lsids wdev') = l \<and> oldest_lsid (lsuper0 wdev') = l
         \<and> ldev_super wdev' = Some (lsuper0 wdev'))
    \<and> (\<not> accepted \<longrightarrow> ret = - EFAULT \<and> wdev' = wdev)"
proof (cases "val_u64 ctl = written (lsids wdev)")
  case True
  then show ?thesis
    using assms
    by (auto simp: ioctl_wdev_set_oldest_lsid_def Let_def walb_sync_super_block_def EFAULT_def
        split: if_splits)
next
  case nw: False
  show ?thesis
  proof (cases "oldest (lsids wdev) \<le> val_u64 ctl \<and> val_u64 ctl < written (lsids wdev)")
    case False
    then show ?thesis
      using assms nw
      by (auto simp: ioctl_wdev_set_oldest_lsid_def Let_def EFAULT_def split: if_splits)
  next
    case True
    then obtain r where r: "walb_check_lsid_valid cfg e wdev (val_u64 ctl) = Some r"
      using assms(1) nw
      by (auto simp: ioctl_wdev_set_oldest_lsid_def Let_def split: if_splits option.splits)
    have acc: "accepted \<longleftrightarrow> r \<noteq> 0"
      using check_valid_iff [OF r] assms(2,3) nw True by auto
    show ?thesis
      using assms(1,2) nw True r acc
      by (auto simp: ioctl_wdev_set_oldest_lsid_def Let_def walb_sync_super_block_def
          EFAULT_def split: if_splits)
  qed
qed

text \<open>
  C10.  A CREATE\_SNAPSHOT request whose buffer is smaller than a snapshot record is refused
  and changes nothing.  For a request with a record in a buffer that is large enough, the
  lsid used for the snapshot is the completed lsid of the device when the record carries
  \<open>INVALID_LSID\<close>, and the lsid of the record otherwise.  The completed lsid is the one
  that GET\_COMPLETED\_LSID reports: the field \<open>completed\<close> of the LSIDs under
  \<open>WALB_FAST_ALGORITHM\<close>, the written lsid without it.  The substitution is made in the
  record of the buffer before the name is checked and the record is added: the lsid is the
  one left in the buffer, the one given to the snapshot store and, when the request
  succeeds, the one of the record added.
\<close>

theorem create_snapshot_lsid:
  assumes "u2k_buf ctl = Some srec"
    and "l = (if lsid srec = INVALID_LSID
              then (if WALB_FAST_ALGORITHM cfg then completed (lsids wdev)
                    else written (lsids wdev))
              else lsid srec)"
    and "ioctl_wdev_create_snapshot cfg e ctl wdev = (ret, ctl', wdev')"
  shows "(u2k_buf_size ctl < sizeof_struct_walb_snapshot_record \<longrightarrow>
           ret = - EFAULT \<and> ctl' = ctl \<and> wdev' = wdev)
    \<and> (sizeof_struct_walb_snapshot_record \<le> u2k_buf_size ctl \<longrightarrow>
         (lsid srec \<noteq> INVALID_LSID \<longrightarrow> l = lsid srec)
         \<and> (lsid srec = INVALID_LSID \<longrightarrow>
              l = get_completed_lsid cfg wdev
              \<and> l = val_u64 (fst (snd (ioctl_wdev_get_completed_lsid cfg ctl wdev))))
         \<and> (lsid srec = INVALID_LSID \<and> WALB_FAST_ALGORITHM cfg \<longrightarrow>
              l = completed (lsids wdev))
         \<and> (lsid srec = INVALID_LSID \<and> \<not> WALB_FAST_ALGORITHM cfg \<longrightarrow>
              l = written (lsids wdev))
         \<and> u2k_buf ctl' = Some (srec\<lparr>lsid := l\<rparr>)
         \<and> (is_valid_snapshot_name cfg (name srec) \<longrightarrow>
              snapd wdev' = snd (snapshot_add cfg e (snapd wdev) (name srec) l (timestamp srec))
              \<and> (ret = 0 \<longleftrightarrow>
                   fst (snapshot_add cfg e (snapd wdev) (name srec) l (timestamp srec)) = None))
         \<and> (\<not> is_valid_snapshot_name cfg (name srec) \<longrightarrow> ret = - EFAULT \<and> wdev' = wdev)
         \<and> (ret = 0 \<longrightarrow>
              records (snapd wdev') = records (snapd wdev) @
                [\<lparr>lsid = l, timestamp = timestamp srec, name = name srec,
                  snapshot_id = next_snapshot_id (snapd wdev)\<rparr>]))"
  using assms
  by (auto simp: ioctl_wdev_create_snapshot_def Let_def snapshot_add_def EFAULT_def not_less
      get_completed_lsid_def get_written_lsid_def ioctl_wdev_get_completed_lsid_def
      split: if_splits option.splits prod.splits)

section \<open>Clearing the log\<close>

lemmas clear_log_defs =
  ioctl_wdev_clear_log_def clear_log_commit_def clear_log_grow_def clear_log_error1_def
  clear_log_error2_def backup_lsid_set_def restore_lsid_set_def invalidate_lsid_def
  walb_sync_super_block_def snapshot_del_range_def iocore_set_readonly_def
  iocore_clear_log_overflow_def iocore_freeze_def iocore_melt_def stop_checkpointing_def
  start_checkpointing_def resize_disk_def

lemma filter_out_all:
  assumes "\<forall>r \<in> set xs. lsid r < m"
  shows "filter (\<lambda>r. \<not> (0 \<le> lsid r \<and> lsid r < m)) xs = []"
  using assms by (induction xs) auto

text \<open>
  C1, as the code has it.  After a CLEAR\_LOG that returns 0, on a device whose snapshots
  have lsids up to \<open>MAX_LSID\<close>: all LSIDs are 0; the super image carries the generated uuid
  and salt and has been written to the log device; if the log device has grown, the ring
  buffer size is computed from its new size; the snapshot store is empty; the sector of
  lsid 0 holds zeros; the overflow flag is clear; checkpointing has been restarted and the
  pipeline melted after the freeze of the operation itself.  The freeze state is the one
  that the device had before.
\<close>

theorem clear_log_success:
  assumes res: "ioctl_wdev_clear_log cfg e ctl wdev = Some (0, ctl', wdev')"
    and snaps: "\<forall>r \<in> set (records (snapd wdev)). lsid r < MAX_LSID cfg + 1"
  shows "latest (lsids wdev') = 0 \<and> flush (lsids wdev') = 0 \<and> permanent (lsids wdev') = 0
    \<and> written (lsids wdev') = 0 \<and> prev_written (lsids wdev') = 0 \<and> oldest (lsids wdev') = 0
    \<and> get_completed_lsid cfg wdev' = 0
    \<and> uuid (lsuper0 wdev') = random_uuid e
    \<and> walb_super_sector.log_checksum_salt (lsuper0 wdev') = random_salt e
    \<and> log_checksum_salt wdev' = random_salt e
    \<and> oldest_lsid (lsuper0 wdev') = 0 \<and> written_lsid (lsuper0 wdev') = 0
    \<and> walb_super_sector.ring_buffer_size (lsuper0 wdev') = ring_buffer_size wdev'
    \<and> ldev_super wdev' = Some (lsuper0 wdev')
    \<and> (ldev_size wdev < ldev_nr_sects wdev \<longrightarrow>
         ldev_size wdev' = ldev_nr_sects wdev
         \<and> map_option (\<lambda>roff. addr_pb cfg (physical_bs wdev) (ldev_nr_sects wdev) - roff)
              (get_ring_buffer_offset (PAGE_SIZE cfg) (physical_bs wdev) (n_snapshots wdev))
             = Some (ring_buffer_size wdev'))
    \<and> (\<not> ldev_size wdev < ldev_nr_sects wdev \<longrightarrow>
         ring_buffer_size wdev' = ring_buffer_size wdev)
    \<and> snapshot_n_records (snapd wdev') = 0
    \<and> map_option (ldev wdev') (get_offset_of_lsid_2 (PAGE_SIZE cfg) (lsuper0 wdev') 0)
        = Some (replicate (unat (physical_bs wdev)) 0)
    \<and> \<not> iocore_is_log_overflow wdev'
    \<and> calls wdev' = calls wdev @
        [IOCORE_FREEZE, STOP_CHECKPOINTING, START_CHECKPOINTING, IOCORE_MELT]
    \<and> freeze_state wdev' = freeze_state wdev
    \<and> is_read_only wdev' = is_read_only wdev"
  using assms
  by (auto simp: clear_log_defs Let_def EFAULT_def get_completed_lsid_def
      get_written_lsid_def snapshot_n_records_def iocore_is_log_overflow_def filter_out_all
      get_offset_of_lsid_2_def get_ring_buffer_offset_2_def get_super_sector1_offset_2_def
      split: if_splits option.splits prod.splits bool.splits)

text \<open>
  C3.  A CLEAR\_LOG that has reached the sync of the super block (the log device has not
  shrunk and, if it has grown, the disk has been resized) returns 0 if and only if the sync,
  the update of the uuid index, the invalidation of lsid 0 and the deletion of the snapshots
  all succeed.  Otherwise it returns \<open>-EFAULT\<close>, the LSIDs and the ring buffer size are
  those at entry and the device is read-only.
\<close>

theorem clear_log_failure_restores:
  assumes res: "ioctl_wdev_clear_log cfg e ctl wdev = Some (ret, ctl', wdev')"
    and noshrink: "ldev_size wdev \<le> ldev_nr_sects wdev"
    and resized: "ldev_size wdev < ldev_nr_sects wdev \<longrightarrow>
                    fst (resize_disk e (log_gd_capacity wdev) (ldev_nr_sects wdev))"
  shows "(ret = 0 \<longleftrightarrow>
           write_super_ok e \<and> alldevs_update_uuid_ret e = 0 \<and> sector_alloc_ok e
           \<and> ldev_write_ok e \<and> snapshot_io_ok e)
    \<and> (ret \<noteq> 0 \<longrightarrow>
         ret = - EFAULT \<and> lsids wdev' = lsids wdev
         \<and> ring_buffer_size wdev' = ring_buffer_size wdev \<and> is_read_only wdev'
         \<and> calls wdev' = calls wdev @
             [IOCORE_FREEZE, STOP_CHECKPOINTING, START_CHECKPOINTING, IOCORE_MELT])"
  using assms
  by (auto simp: clear_log_defs Let_def EFAULT_def
      split: if_splits option.splits prod.splits bool.splits)

section \<open>The redo step\<close>

lemma execute_redo_cursor:
  assumes "execute_redo fuel cfg e wdev = Some (True, wdev')"
  shows "\<exists>cursor wdev1.
           redo_loop fuel cfg e wdev (written (lsids wdev)) = Some (True, cursor, wdev1)
           \<and> lsids wdev' = (lsids wdev1)\<lparr>written := cursor, permanent := cursor,
                 completed := cursor, latest := cursor, flush := cursor\<rparr>
           \<and> lsuper0 wdev' = (lsuper0 wdev1)\<lparr>oldest_lsid := oldest (lsids wdev1),
                 written_lsid := cursor, device_size := size_wdev wdev1\<rparr>
           \<and> ldev_super wdev' = Some (lsuper0 wdev')"
  using assms
  by (auto simp: execute_redo_def walb_sync_super_block_def Let_def
      split: option.splits prod.splits if_splits)

text \<open>
  C4.  When the redo step returns true, the redo loop has stopped at a cursor; \<open>written\<close>,
  \<open>permanent\<close>, \<open>completed\<close>, \<open>latest\<close> and \<open>flush\<close> are that cursor, and the super
  image, which carries the cursor as \<open>written_lsid\<close>, has been written to the log device.
\<close>

theorem execute_redo_lsids:
  assumes "execute_redo fuel cfg e wdev = Some (True, wdev')"
  shows "\<exists>cursor wdev1.
           redo_loop fuel cfg e wdev (written (lsids wdev)) = Some (True, cursor, wdev1)
           \<and> written (lsids wdev') = cursor \<and> permanent (lsids wdev') = cursor
           \<and> completed (lsids wdev') = cursor \<and> latest (lsids wdev') = cursor
           \<and> flush (lsids wdev') = cursor
           \<and> written_lsid (lsuper0 wdev') = cursor
           \<and> oldest_lsid (lsuper0 wdev') = oldest (lsids wdev')
           \<and> ldev_super wdev' = Some (lsuper0 wdev')"
proof -
  from execute_redo_cursor [OF assms] obtain cursor wdev1 where
    loop: "redo_loop fuel cfg e wdev (written (lsids wdev)) = Some (True, cursor, wdev1)"
    and ls: "lsids wdev' = (lsids wdev1)\<lparr>written := cursor, permanent := cursor,
                 completed := cursor, latest := cursor, flush := cursor\<rparr>"
    and su: "lsuper0 wdev' = (lsuper0 wdev1)\<lparr>oldest_lsid := oldest (lsids wdev1),
                 written_lsid := cursor, device_size := size_wdev wdev1\<rparr>"
    and disk: "ldev_super wdev' = Some (lsuper0 wdev')"
    by blast
  show ?thesis
    using loop disk by (intro exI [of _ cursor] exI [of _ wdev1]) (simp add: ls su)
qed

lemma prepare_wdev_asserts_hold:
  assumes "prepare_wdev fuel cfg e wdev = Some (Some wdev')"
  shows "prepare_wdev_asserts cfg wdev'
    \<and> written (lsids wdev') = permanent (lsids wdev')
    \<and> written_lsid (lsuper0 wdev') = written (lsids wdev')
    \<and> ldev_super wdev' = Some (lsuper0 wdev')"
proof -
  from assms obtain wdev0 where "execute_redo fuel cfg e wdev0 = Some (True, wdev')"
    by (auto simp: prepare_wdev_def Let_def split: if_splits option.splits prod.splits)
  from execute_redo_cursor [OF this] show ?thesis
    by (auto simp: prepare_wdev_asserts_def)
qed

section \<open>Concrete runs\<close>

text \<open>
  The theorems above, applied to the example device, and the inputs at which the claims of
  the specification that had to be amended fail.
\<close>

lemmas example_defs = example_config_def example_env_def example_ctl_def example_super_def
  example_wdev_def example_get_logpack_header_def

lemmas offset_defs = get_offset_of_lsid_2_def get_ring_buffer_offset_2_def
  get_super_sector1_offset_2_def get_metadata_offset_def get_super_sector0_offset_def
  get_ring_buffer_offset_def get_super_sector1_offset_def get_metadata_size_def
  max_n_snapshots_in_sector_def int_div_def sizeof_walb_snapshot_sector_t_def
  sizeof_walb_snapshot_record_t_def signed_divide_int_def

lemma example_wdev_sel:
  "lsids example_wdev = \<lparr>latest = 20, flush = 20, completed = 20, permanent = 20,
     written = 10, prev_written = 10, oldest = 0\<rparr>"
  "freeze_state example_wdev = FRZ_MELTED"
  "freeze_dwork example_wdev = None"
  "calls example_wdev = []"
  "gd_capacity example_wdev = 100"
  "size_wdev example_wdev = 100"
  "ddev_size example_wdev = 200"
  "ddev_nr_sects example_wdev = 200"
  "ldev_size example_wdev = 2048"
  "ldev_nr_sects example_wdev = 2048"
  "log_gd_capacity example_wdev = 2048"
  "physical_bs example_wdev = 512"
  "n_snapshots example_wdev = 13"
  "ring_buffer_size example_wdev = 1024"
  "lsuper0 example_wdev = example_super"
  "is_read_only example_wdev = False"
  "log_overflow example_wdev = True"
  "records (snapd example_wdev) = [\<lparr>lsid = 5, timestamp = 1, name = ''s1'', snapshot_id = 0\<rparr>]"
  "next_snapshot_id (snapd example_wdev) = 1"
  by (simp_all add: example_wdev_def)

theorem freeze_timeout_witness:
  "(case ioctl_wdev_freeze (example_ctl\<lparr>val_u32 := 100000\<rparr>) example_wdev of
      (ret, c, w) \<Rightarrow>
        ret = 0 \<and> freeze_state w = FRZ_FREEZED_WITH_TIMEOUT
        \<and> freeze_dwork w = Some 86400000
        \<and> calls w = [IOCORE_FREEZE, STOP_CHECKPOINTING]
        \<and> freeze_state (task_melt w) = FRZ_MELTED)
   \<and> (case ioctl_wdev_freeze example_ctl example_wdev of
         (ret, c, w) \<Rightarrow> ret = 0 \<and> freeze_state w = FRZ_FREEZED)"
proof -
  obtain r1 c1 w1 where
    a: "ioctl_wdev_freeze (example_ctl\<lparr>val_u32 := 100000\<rparr>) example_wdev = (r1, c1, w1)"
    by (cases "ioctl_wdev_freeze (example_ctl\<lparr>val_u32 := 100000\<rparr>) example_wdev") auto
  obtain r2 c2 w2 where b: "ioctl_wdev_freeze example_ctl example_wdev = (r2, c2, w2)"
    by (cases "ioctl_wdev_freeze example_ctl example_wdev") auto
  show ?thesis
    unfolding a b
    using freeze_timeout [OF a] freeze_timeout [OF b]
    by (simp add: example_ctl_def example_wdev_def)
qed

theorem melt_idempotent_witness:
  "(case ioctl_wdev_melt example_ctl
           (example_wdev\<lparr>freeze_state := FRZ_FREEZED_WITH_TIMEOUT, freeze_dwork := Some 5000\<rparr>) of
      (ret, c, w) \<Rightarrow>
        ret = 0 \<and> freeze_state w = FRZ_MELTED \<and> freeze_dwork w = None
        \<and> calls w = [START_CHECKPOINTING, IOCORE_MELT]
        \<and> ioctl_wdev_melt c w = (0, c, w))
   \<and> ioctl_wdev_melt example_ctl example_wdev = (0, example_ctl, example_wdev)"
proof -
  let ?w = "example_wdev\<lparr>freeze_state := FRZ_FREEZED_WITH_TIMEOUT, freeze_dwork := Some 5000\<rparr>"
  obtain r1 c1 w1 where a: "ioctl_wdev_melt example_ctl ?w = (r1, c1, w1)"
    by (cases "ioctl_wdev_melt example_ctl ?w") auto
  obtain r2 c2 w2 where b: "ioctl_wdev_melt example_ctl example_wdev = (r2, c2, w2)"
    by (cases "ioctl_wdev_melt example_ctl example_wdev") auto
  show ?thesis
    unfolding a b
    using melt_idempotent [OF a] melt_idempotent [OF b]
    by (auto simp: example_wdev_def)
qed

theorem resize_grows_only_witness:
  "(case ioctl_wdev_resize example_env (example_ctl\<lparr>val_u64 := 150\<rparr>) example_wdev of
      (ret, c, w) \<Rightarrow>
        ret = 0 \<and> gd_capacity w = 150 \<and> size_wdev w = 150 \<and> device_size (lsuper0 w) = 150
        \<and> ldev_super w = Some (lsuper0 w) \<and> gd_capacity w \<le> ddev_nr_sects w)
   \<and> ioctl_wdev_resize example_env (example_ctl\<lparr>val_u64 := 50\<rparr>) example_wdev
       = (- EFAULT, example_ctl\<lparr>val_u64 := 50\<rparr>, example_wdev)
   \<and> ioctl_wdev_resize example_env (example_ctl\<lparr>val_u64 := 300\<rparr>) example_wdev
       = (- EFAULT, example_ctl\<lparr>val_u64 := 300\<rparr>, example_wdev)
   \<and> ioctl_wdev_resize example_env (example_ctl\<lparr>val_u64 := 100\<rparr>) example_wdev
       = (0, example_ctl\<lparr>val_u64 := 100\<rparr>, example_wdev)"
proof -
  obtain r1 c1 w1 where
    a: "ioctl_wdev_resize example_env (example_ctl\<lparr>val_u64 := 150\<rparr>) example_wdev = (r1, c1, w1)"
    by (cases "ioctl_wdev_resize example_env (example_ctl\<lparr>val_u64 := 150\<rparr>) example_wdev") auto
  have b: "ioctl_wdev_resize example_env (example_ctl\<lparr>val_u64 := 50\<rparr>) example_wdev
       = (- EFAULT, example_ctl\<lparr>val_u64 := 50\<rparr>, example_wdev)"
    "ioctl_wdev_resize example_env (example_ctl\<lparr>val_u64 := 300\<rparr>) example_wdev
       = (- EFAULT, example_ctl\<lparr>val_u64 := 300\<rparr>, example_wdev)"
    "ioctl_wdev_resize example_env (example_ctl\<lparr>val_u64 := 100\<rparr>) example_wdev
       = (0, example_ctl\<lparr>val_u64 := 100\<rparr>, example_wdev)"
    by (simp_all add: ioctl_wdev_resize_def Let_def example_ctl_def example_wdev_def)
  show ?thesis
    unfolding a
    using resize_grows_only [OF a refl] b
    by (auto simp: example_ctl_def example_wdev_def example_env_def)
qed

text \<open>
  The claim C5 says that a request with a size below the current one fails.  A request of 0
  on a device of 100 sectors over a data device of 200 sectors succeeds, and the device has
  200 sectors afterwards.
\<close>

theorem resize_zero_counterexample:
  "val_u64 example_ctl < gd_capacity example_wdev
   \<and> (case ioctl_wdev_resize example_env example_ctl example_wdev of
         (ret, c, w) \<Rightarrow> ret = 0 \<and> gd_capacity w = 200 \<and> size_wdev w = 200
            \<and> gd_capacity w \<noteq> gd_capacity example_wdev)"
  by (simp add: ioctl_wdev_resize_def Let_def resize_disk_def walb_sync_super_block_def
      example_ctl_def example_wdev_def example_env_def)

theorem set_oldest_lsid_validated_witness:
  "lsid_holds_valid_logpack example_config example_wdev 5
   \<and> (case ioctl_wdev_set_oldest_lsid example_config example_env
             (example_ctl\<lparr>val_u64 := 5\<rparr>) example_wdev of
         None \<Rightarrow> False
       | Some (ret, c, w) \<Rightarrow>
           ret = 0 \<and> oldest (lsids w) = 5 \<and> oldest_lsid (lsuper0 w) = 5
           \<and> ldev_super w = Some (lsuper0 w))
   \<and> \<not> lsid_holds_valid_logpack example_config example_wdev 6
   \<and> (case ioctl_wdev_set_oldest_lsid example_config example_env
             (example_ctl\<lparr>val_u64 := 6\<rparr>) example_wdev of
         None \<Rightarrow> False
       | Some (ret, c, w) \<Rightarrow> ret = - EFAULT \<and> w = example_wdev)"
proof -
  let ?op5 = "ioctl_wdev_set_oldest_lsid example_config example_env
                (example_ctl\<lparr>val_u64 := 5\<rparr>) example_wdev"
  let ?op6 = "ioctl_wdev_set_oldest_lsid example_config example_env
                (example_ctl\<lparr>val_u64 := 6\<rparr>) example_wdev"
  have v: "lsid_holds_valid_logpack example_config example_wdev 5"
    "\<not> lsid_holds_valid_logpack example_config example_wdev 6"
    by (simp_all add: lsid_holds_valid_logpack_def example_defs offset_defs)
  have nn: "?op5 \<noteq> None" "?op6 \<noteq> None"
    by (simp_all add: ioctl_wdev_set_oldest_lsid_def walb_check_lsid_valid_def Let_def
        walb_sync_super_block_def example_defs offset_defs)
  obtain r1 c1 w1 where a: "?op5 = Some (r1, c1, w1)"
    using nn(1) by (cases ?op5) auto
  obtain r2 c2 w2 where b: "?op6 = Some (r2, c2, w2)"
    using nn(2) by (cases ?op6) auto
  have l5: "5 = val_u64 (example_ctl\<lparr>val_u64 := 5\<rparr>)"
    and l6: "6 = val_u64 (example_ctl\<lparr>val_u64 := 6\<rparr>)"
    by simp_all
  have acc5: "True \<longleftrightarrow>
           5 = written (lsids example_wdev)
           \<or> (oldest (lsids example_wdev) \<le> 5 \<and> 5 < written (lsids example_wdev)
              \<and> sector_alloc_ok example_env \<and> ldev_read_ok example_env
              \<and> lsid_holds_valid_logpack example_config example_wdev 5)"
    using v by (simp add: example_wdev_def example_env_def)
  have acc6: "False \<longleftrightarrow>
           6 = written (lsids example_wdev)
           \<or> (oldest (lsids example_wdev) \<le> 6 \<and> 6 < written (lsids example_wdev)
              \<and> sector_alloc_ok example_env \<and> ldev_read_ok example_env
              \<and> lsid_holds_valid_logpack example_config example_wdev 6)"
    using v by (simp add: example_wdev_def example_env_def)
  have ok: "write_super_ok example_env" by (simp add: example_env_def)
  have f1: "r1 = 0 \<and> oldest (lsids w1) = 5 \<and> oldest_lsid (lsuper0 w1) = 5
           \<and> ldev_super w1 = Some (lsuper0 w1)"
    using set_oldest_lsid_validated [OF a l5 acc5] ok by blast
  have f2: "r2 = - EFAULT \<and> w2 = example_wdev"
    using set_oldest_lsid_validated [OF b l6 acc6] by blast
  show ?thesis
    unfolding a b using f1 f2 v by auto
qed

text \<open>
  The claim C2 says that the request succeeds when the lsid is the written lsid.  When the
  super block cannot be written, such a request returns \<open>-EFAULT\<close>; \<open>oldest\<close> has been
  set before the sync.
\<close>

theorem set_oldest_lsid_sync_counterexample:
  "val_u64 (example_ctl\<lparr>val_u64 := 10\<rparr>) = written (lsids example_wdev)
   \<and> (case ioctl_wdev_set_oldest_lsid example_config (example_env\<lparr>write_super_ok := False\<rparr>)
             (example_ctl\<lparr>val_u64 := 10\<rparr>) example_wdev of
         None \<Rightarrow> False
       | Some (ret, c, w) \<Rightarrow> ret = - EFAULT \<and> ret \<noteq> 0 \<and> oldest (lsids w) = 10)"
  by (simp add: ioctl_wdev_set_oldest_lsid_def Let_def walb_sync_super_block_def EFAULT_def
      example_ctl_def example_wdev_def example_env_def)

theorem create_snapshot_lsid_witness:
  "(case ioctl_wdev_create_snapshot example_config example_env
           (example_ctl\<lparr>u2k_buf_size := 84,
              u2k_buf := Some \<lparr>lsid = INVALID_LSID, timestamp = 7, name = ''s2'',
                               snapshot_id = 0\<rparr>\<rparr>)
           (example_wdev\<lparr>lsids := (lsids example_wdev)\<lparr>completed := 17\<rparr>\<rparr>) of
      (ret, c, w) \<Rightarrow>
        ret = 0 \<and> map_option lsid (u2k_buf c) = Some 17
        \<and> records (snapd w) =
            [\<lparr>lsid = 5, timestamp = 1, name = ''s1'', snapshot_id = 0\<rparr>,
             \<lparr>lsid = 17, timestamp = 7, name = ''s2'', snapshot_id = 1\<rparr>])
   \<and> (case ioctl_wdev_create_snapshot (example_config\<lparr>WALB_FAST_ALGORITHM := False\<rparr>)
           example_env
           (example_ctl\<lparr>u2k_buf_size := 84,
              u2k_buf := Some \<lparr>lsid = INVALID_LSID, timestamp = 7, name = ''s2'',
                               snapshot_id = 0\<rparr>\<rparr>)
           (example_wdev\<lparr>lsids := (lsids example_wdev)\<lparr>completed := 17\<rparr>\<rparr>) of
      (ret, c, w) \<Rightarrow>
        ret = 0 \<and> map_option lsid (u2k_buf c) = Some 10
        \<and> records (snapd w) =
            [\<lparr>lsid = 5, timestamp = 1, name = ''s1'', snapshot_id = 0\<rparr>,
             \<lparr>lsid = 10, timestamp = 7, name = ''s2'', snapshot_id = 1\<rparr>])
   \<and> (case ioctl_wdev_create_snapshot example_config example_env
           (example_ctl\<lparr>u2k_buf_size := 84,
              u2k_buf := Some \<lparr>lsid = 3, timestamp = 7, name = ''s2'',
                               snapshot_id = 0\<rparr>\<rparr>)
           (example_wdev\<lparr>lsids := (lsids example_wdev)\<lparr>completed := 17\<rparr>\<rparr>) of
      (ret, c, w) \<Rightarrow>
        ret = 0 \<and> map_option lsid (u2k_buf c) = Some 3
        \<and> records (snapd w) =
            [\<lparr>lsid = 5, timestamp = 1, name = ''s1'', snapshot_id = 0\<rparr>,
             \<lparr>lsid = 3, timestamp = 7, name = ''s2'', snapshot_id = 1\<rparr>])
   \<and> (case ioctl_wdev_create_snapshot example_config example_env
           (example_ctl\<lparr>u2k_buf_size := 83,
              u2k_buf := Some \<lparr>lsid = INVALID_LSID, timestamp = 7, name = ''s2'',
                               snapshot_id = 0\<rparr>\<rparr>)
           (example_wdev\<lparr>lsids := (lsids example_wdev)\<lparr>completed := 17\<rparr>\<rparr>) of
      (ret, c, w) \<Rightarrow>
        ret = - EFAULT \<and> map_option lsid (u2k_buf c) = Some INVALID_LSID
        \<and> records (snapd w) = [\<lparr>lsid = 5, timestamp = 1, name = ''s1'', snapshot_id = 0\<rparr>])"
proof -
  let ?s1 = "\<lparr>lsid = INVALID_LSID, timestamp = 7, name = ''s2'', snapshot_id = 0\<rparr>"
  let ?s2 = "\<lparr>lsid = 3, timestamp = 7, name = ''s2'', snapshot_id = 0\<rparr>"
  let ?c1 = "example_ctl\<lparr>u2k_buf_size := 84, u2k_buf := Some ?s1\<rparr>"
  let ?c2 = "example_ctl\<lparr>u2k_buf_size := 84, u2k_buf := Some ?s2\<rparr>"
  let ?c3 = "example_ctl\<lparr>u2k_buf_size := 83, u2k_buf := Some ?s1\<rparr>"
  let ?slow = "example_config\<lparr>WALB_FAST_ALGORITHM := False\<rparr>"
  let ?w = "example_wdev\<lparr>lsids := (lsids example_wdev)\<lparr>completed := 17\<rparr>\<rparr>"
  have r0: "fst (ioctl_wdev_create_snapshot example_config example_env ?c1 ?w) = 0"
    "fst (ioctl_wdev_create_snapshot ?slow example_env ?c1 ?w) = 0"
    "fst (ioctl_wdev_create_snapshot example_config example_env ?c2 ?w) = 0"
    by (simp_all add: ioctl_wdev_create_snapshot_def snapshot_add_def Let_def
        get_completed_lsid_def get_written_lsid_def INVALID_LSID_def
        sizeof_struct_walb_snapshot_record_def example_defs)
  obtain c1 w1 where
    a: "ioctl_wdev_create_snapshot example_config example_env ?c1 ?w = (0, c1, w1)"
    using r0(1) by (metis fst_conv surj_pair)
  obtain c2 w2 where
    b: "ioctl_wdev_create_snapshot ?slow example_env ?c1 ?w = (0, c2, w2)"
    using r0(2) by (metis fst_conv surj_pair)
  obtain c3 w3 where
    c: "ioctl_wdev_create_snapshot example_config example_env ?c2 ?w = (0, c3, w3)"
    using r0(3) by (metis fst_conv surj_pair)
  obtain r4 c4 w4 where
    d: "ioctl_wdev_create_snapshot example_config example_env ?c3 ?w = (r4, c4, w4)"
    by (metis surj_pair)
  have b1: "u2k_buf ?c1 = Some ?s1" "u2k_buf ?c2 = Some ?s2" "u2k_buf ?c3 = Some ?s1"
    by simp_all
  have sz: "sizeof_struct_walb_snapshot_record \<le> u2k_buf_size ?c1"
    "sizeof_struct_walb_snapshot_record \<le> u2k_buf_size ?c2"
    "u2k_buf_size ?c3 < sizeof_struct_walb_snapshot_record"
    by (simp_all add: sizeof_struct_walb_snapshot_record_def)
  have l1: "(17 :: u64) = (if lsid ?s1 = INVALID_LSID
              then (if WALB_FAST_ALGORITHM example_config then completed (lsids ?w)
                    else written (lsids ?w))
              else lsid ?s1)"
    by (simp add: example_config_def example_wdev_def)
  have l2: "(10 :: u64) = (if lsid ?s1 = INVALID_LSID
              then (if WALB_FAST_ALGORITHM ?slow then completed (lsids ?w)
                    else written (lsids ?w))
              else lsid ?s1)"
    by (simp add: example_wdev_def)
  have l3: "(3 :: u64) = (if lsid ?s2 = INVALID_LSID
              then (if WALB_FAST_ALGORITHM example_config then completed (lsids ?w)
                    else written (lsids ?w))
              else lsid ?s2)"
    by (simp add: INVALID_LSID_def)
  have pre: "records (snapd ?w) =
      [\<lparr>lsid = 5, timestamp = 1, name = ''s1'', snapshot_id = 0\<rparr>]"
    "next_snapshot_id (snapd ?w) = 1"
    by (simp_all add: example_wdev_def)
  have f1: "map_option lsid (u2k_buf c1) = Some 17 \<and> records (snapd w1) =
            [\<lparr>lsid = 5, timestamp = 1, name = ''s1'', snapshot_id = 0\<rparr>,
             \<lparr>lsid = 17, timestamp = 7, name = ''s2'', snapshot_id = 1\<rparr>]"
    using create_snapshot_lsid [OF b1(1) l1 a] sz(1) pre by auto
  have f2: "map_option lsid (u2k_buf c2) = Some 10 \<and> records (snapd w2) =
            [\<lparr>lsid = 5, timestamp = 1, name = ''s1'', snapshot_id = 0\<rparr>,
             \<lparr>lsid = 10, timestamp = 7, name = ''s2'', snapshot_id = 1\<rparr>]"
    using create_snapshot_lsid [OF b1(1) l2 b] sz(1) pre by auto
  have f3: "map_option lsid (u2k_buf c3) = Some 3 \<and> records (snapd w3) =
            [\<lparr>lsid = 5, timestamp = 1, name = ''s1'', snapshot_id = 0\<rparr>,
             \<lparr>lsid = 3, timestamp = 7, name = ''s2'', snapshot_id = 1\<rparr>]"
    using create_snapshot_lsid [OF b1(2) l3 c] sz(2) pre by auto
  have f4: "r4 = - EFAULT \<and> map_option lsid (u2k_buf c4) = Some INVALID_LSID
            \<and> records (snapd w4) = [\<lparr>lsid = 5, timestamp = 1, name = ''s1'', snapshot_id = 0\<rparr>]"
    using create_snapshot_lsid [OF b1(3) l1 d] sz(3) pre by auto
  show ?thesis
    unfolding a b c d using f1 f2 f3 f4 by auto
qed

theorem clear_log_success_witness:
  "(case ioctl_wdev_clear_log example_config example_env example_ctl
           (example_wdev\<lparr>ldev_nr_sects := 4096\<rparr>) of
      None \<Rightarrow> False
    | Some (ret, c, w) \<Rightarrow>
        ret = 0 \<and> oldest (lsids w) = 0 \<and> written (lsids w) = 0 \<and> latest (lsids w) = 0
        \<and> uuid (lsuper0 w) = random_uuid example_env \<and> log_checksum_salt w = 9
        \<and> ldev_super w = Some (lsuper0 w)
        \<and> ring_buffer_size w = 4083
        \<and> snapshot_n_records (snapd w) = 0
        \<and> \<not> iocore_is_log_overflow w
        \<and> calls w = [IOCORE_FREEZE, STOP_CHECKPOINTING, START_CHECKPOINTING, IOCORE_MELT]
        \<and> freeze_state w = FRZ_MELTED)"
proof -
  let ?w = "example_wdev\<lparr>ldev_nr_sects := 4096\<rparr>"
  let ?op = "ioctl_wdev_clear_log example_config example_env example_ctl ?w"
  have r0: "map_option fst ?op = Some 0"
    by (simp add: example_defs clear_log_defs offset_defs Let_def)
  then obtain c w where r: "?op = Some (0, c, w)"
    by (cases ?op) auto
  have inv: "\<forall>r \<in> set (records (snapd ?w)). lsid r < MAX_LSID example_config + 1"
    by (simp add: example_wdev_sel example_config_def)
  have grown: "ldev_size ?w < ldev_nr_sects ?w" by (simp add: example_wdev_sel)
  have ring: "map_option (\<lambda>roff. addr_pb example_config (physical_bs ?w) (ldev_nr_sects ?w) - roff)
                (get_ring_buffer_offset (PAGE_SIZE example_config) (physical_bs ?w)
                   (n_snapshots ?w)) = Some 4083"
    by (simp add: example_wdev_sel example_config_def offset_defs Let_def)
  have pre: "calls ?w = []" "freeze_state ?w = FRZ_MELTED" "random_salt example_env = 9"
    by (simp_all add: example_wdev_sel example_env_def)
  show ?thesis
    unfolding r using clear_log_success [OF r inv] grown ring pre by auto
qed

text \<open>
  The claim C1 says that the device is melted after a successful CLEAR\_LOG.  The operation
  does not touch the freeze state: after a FREEZE without timeout, CLEAR\_LOG returns 0 and
  IS\_FROZEN still answers 1.
\<close>

theorem clear_log_melted_counterexample:
  "(case ioctl_wdev_freeze example_ctl example_wdev of
      (ret0, c0, w0) \<Rightarrow>
        ret0 = 0 \<and> freeze_state w0 = FRZ_FREEZED
        \<and> (case ioctl_wdev_clear_log example_config example_env c0 w0 of
              None \<Rightarrow> False
            | Some (ret, c, w) \<Rightarrow>
                ret = 0 \<and> freeze_state w = FRZ_FREEZED \<and> freeze_state w \<noteq> FRZ_MELTED
                \<and> val_int (fst (snd (ioctl_wdev_is_frozen c w))) = 1))"
  by (simp add: example_defs clear_log_defs offset_defs Let_def ioctl_wdev_is_frozen_def
      ioctl_wdev_freeze_def freeze_if_melted_def cancel_melt_work_def)

theorem clear_log_failure_restores_witness:
  "(case ioctl_wdev_clear_log example_config (example_env\<lparr>write_super_ok := False\<rparr>)
           example_ctl example_wdev of
      None \<Rightarrow> False
    | Some (ret, c, w) \<Rightarrow>
        ret = - EFAULT \<and> lsids w = lsids example_wdev
        \<and> ring_buffer_size w = ring_buffer_size example_wdev \<and> is_read_only w)"
proof -
  let ?e = "example_env\<lparr>write_super_ok := False\<rparr>"
  let ?op = "ioctl_wdev_clear_log example_config ?e example_ctl example_wdev"
  have "?op \<noteq> None"
    by (simp add: example_defs clear_log_defs offset_defs Let_def)
  then obtain ret c w where r: "?op = Some (ret, c, w)"
    by (cases ?op) auto
  have noshrink: "ldev_size example_wdev \<le> ldev_nr_sects example_wdev"
    by (simp add: example_wdev_sel)
  have resized: "ldev_size example_wdev < ldev_nr_sects example_wdev \<longrightarrow>
      fst (resize_disk ?e (log_gd_capacity example_wdev) (ldev_nr_sects example_wdev))"
    by (simp add: example_wdev_sel)
  have fails: "\<not> write_super_ok ?e" by simp
  show ?thesis
    unfolding r using clear_log_failure_restores [OF r noshrink resized] fails by auto
qed

lemma example_redo_loop:
  "map_option (\<lambda>(ok, cursor, w). (ok, cursor))
     (redo_loop (Suc (Suc 0)) example_config example_env example_wdev 10) = Some (True, 13)"
  by (simp add: example_defs offset_defs Let_def read_payload_def write_data_def
      upt_rec enumerate_eq_zip)

theorem execute_redo_lsids_witness:
  "(case execute_redo (Suc (Suc 0)) example_config example_env example_wdev of
      None \<Rightarrow> False
    | Some (ok, w) \<Rightarrow>
        ok \<and> written (lsids w) = 13 \<and> permanent (lsids w) = 13 \<and> completed (lsids w) = 13
        \<and> latest (lsids w) = 13 \<and> flush (lsids w) = 13 \<and> written_lsid (lsuper0 w) = 13
        \<and> ldev_super w = Some (lsuper0 w))"
proof -
  let ?op = "execute_redo (Suc (Suc 0)) example_config example_env example_wdev"
  have w10: "written (lsids example_wdev) = 10" by (simp add: example_wdev_def)
  define L where "L = redo_loop (Suc (Suc 0)) example_config example_env example_wdev 10"
  have "map_option (\<lambda>(ok, cursor, w). (ok, cursor)) L = Some (True, 13)"
    unfolding L_def by (rule example_redo_loop)
  then obtain w1 where "L = Some (True, 13, w1)"
    by (cases L) auto
  then have loop:
    "redo_loop (Suc (Suc 0)) example_config example_env example_wdev 10 = Some (True, 13, w1)"
    by (simp only: L_def)
  have "map_option fst ?op = Some True"
    unfolding execute_redo_def w10 loop
    by (simp add: walb_sync_super_block_def example_env_def Let_def)
  then obtain w where r: "?op = Some (True, w)"
    by (cases ?op) auto
  show ?thesis
    unfolding r using execute_redo_lsids [OF r] unfolding w10 loop by auto
qed

end
